theory Spec2Isabelle
  imports Main "HOL-Library.Word" "HOL-Library.Log_Nat"
begin

unbundle bit_operations_syntax

text \<open>
  A shallow embedding of the bridge between a WinUI control and the Blitz host
  (\<open>apps/BlitzWinRTTestApp/Blitz\<close>): the swap-chain attacher, the network fetcher and the
  control \<open>BlitzView\<close> with its render loop, its size and pointer forwarding and its
  template handling. Each method is a function from the object's fields, the state of
  the framework around it and the framework's answers to the new fields and state; calls
  into the panel and into the host are recorded in the order made. The older wrapper
  control in \<open>apps/BlitzTestApp/Blitz.WinRTWrapper\<close> shares no code with the bridge and is
  not modelled.
\<close>

section \<open>Machine types\<close>

type_synonym uint8_t = "8 word"
type_synonym uint32_t = "32 word"
type_synonym uint64_t = "64 word"
type_synonym int32_t = "32 word"

text \<open>An \<open>HRESULT\<close> is a signed 32-bit value; the Windows macro \<open>FAILED(hr)\<close> is
  \<open>hr < 0\<close> on the signed reading.\<close>

type_synonym HRESULT = "32 word"

definition FAILED :: "HRESULT \<Rightarrow> bool" where
  "FAILED hr = (sint hr < 0)"

section \<open>Attacher (Attacher.h, Attacher.cpp)\<close>

text \<open>A \<open>SwapChainPanel\<close> is a UI object owned by the framework; the model keeps its
  identity only. The constructor argument is an \<open>IInspectable\<close>: null, a panel, or an
  object of another class (for which \<open>as<SwapChainPanel>()\<close> throws).\<close>

type_synonym SwapChainPanel = nat

datatype IInspectable = Panel_object SwapChainPanel | Other_object nat

text \<open>The lines written with \<open>OutputDebugStringW\<close>, one constructor for each message.\<close>

datatype debug_line =
    Captured_panel
  | Panel_is_not_a_SwapChainPanel
  | Null_panel_provided
  | Null_pointer_ignoring
  | Test_pointer_ignoring
  | Panel_not_set
  | QI_failed
  | SetSwapChain_failed HRESULT
  | Attach_success

text \<open>What a call of the attacher does to the outside: a debug line, the capability
  query on the panel (\<open>QueryInterface\<close> for \<open>ISwapChainPanelNative\<close>), or the
  \<open>SetSwapChain\<close> call on the interface obtained.\<close>

datatype attach_effect =
    OutputDebugStringW debug_line
  | QueryInterface SwapChainPanel
  | SetSwapChain SwapChainPanel uint64_t

record Attacher =
  m_panel :: "SwapChainPanel option"
  m_lastSwapchainPtr :: uint64_t

text \<open>The platform's answers to the two calls on the panel.\<close>

record panel_native =
  QueryInterface_result :: "SwapChainPanel \<Rightarrow> HRESULT"
  SetSwapChain_result :: "SwapChainPanel \<Rightarrow> uint64_t \<Rightarrow> HRESULT"

definition Attacher_ctor :: "IInspectable option \<Rightarrow> Attacher \<times> attach_effect list" where
  "Attacher_ctor panel =
     (case panel of
        Some (Panel_object p) \<Rightarrow>
          (\<lparr>m_panel = Some p, m_lastSwapchainPtr = 0\<rparr>, [OutputDebugStringW Captured_panel])
      | Some (Other_object _) \<Rightarrow>
          (\<lparr>m_panel = None, m_lastSwapchainPtr = 0\<rparr>,
           [OutputDebugStringW Panel_is_not_a_SwapChainPanel])
      | None \<Rightarrow>
          (\<lparr>m_panel = None, m_lastSwapchainPtr = 0\<rparr>, [OutputDebugStringW Null_panel_provided]))"

definition test_sentinel :: uint64_t where
  "test_sentinel = 0xFEEDFACECAFEBEEF"

definition AttachSwapChain ::
  "panel_native \<Rightarrow> Attacher \<Rightarrow> uint64_t \<Rightarrow> Attacher \<times> attach_effect list" where
  "AttachSwapChain env a swapchainPtr =
     (let a' = a\<lparr>m_lastSwapchainPtr := swapchainPtr\<rparr> in
      if swapchainPtr = 0 then (a', [OutputDebugStringW Null_pointer_ignoring])
      else if swapchainPtr = 0xFEEDFACECAFEBEEF then (a', [OutputDebugStringW Test_pointer_ignoring])
      else case m_panel a' of
        None \<Rightarrow> (a', [OutputDebugStringW Panel_not_set])
      | Some p \<Rightarrow>
          let qi = QueryInterface_result env p in
          if FAILED qi then (a', [QueryInterface p, OutputDebugStringW QI_failed])
          else
            let hr = SetSwapChain_result env p swapchainPtr in
            if FAILED hr
            then (a', [QueryInterface p, SetSwapChain p swapchainPtr,
                       OutputDebugStringW (SetSwapChain_failed hr)])
            else (a', [QueryInterface p, SetSwapChain p swapchainPtr,
                       OutputDebugStringW Attach_success]))"

definition TestAttacherConnection :: "Attacher \<Rightarrow> bool" where
  "TestAttacherConnection a = True"

fun is_panel_call :: "attach_effect \<Rightarrow> bool" where
  "is_panel_call (OutputDebugStringW _) = False"
| "is_panel_call (QueryInterface _) = True"
| "is_panel_call (SetSwapChain _ _) = True"

text \<open>An ignored call: handle 0, the test sentinel, or no panel captured.\<close>

definition ignored_attach :: "Attacher \<Rightarrow> uint64_t \<Rightarrow> bool" where
  "ignored_attach a swapchainPtr =
     (swapchainPtr = 0 \<or> swapchainPtr = test_sentinel \<or> m_panel a = None)"

text \<open>An environment in which both platform calls succeed (\<open>S_OK\<close>).\<close>

definition all_ok :: panel_native where
  "all_ok = \<lparr>QueryInterface_result = (\<lambda>_. 0), SetSwapChain_result = (\<lambda>_ _. 0)\<rparr>"

section \<open>Floating-point values\<close>

text \<open>
  A finite \<open>double\<close> or \<open>float\<close> is modelled by the rational number it denotes. An
  arithmetic operation returns the exact result rounded to the nearest value with a
  significand of 53 bits (24 for \<open>float\<close>), ties to the even significand, as IEEE 754
  prescribes. The exponent is not bounded and there are no infinities, NaN or negative
  zero: the values computed below (a wheel delta of 32 bits divided by 120 and multiplied
  by 48, a display scale) stay far inside the range of normal numbers.
\<close>

type_synonym double = rat
type_synonym float = rat

definition pow2 :: "int \<Rightarrow> rat" where
  "pow2 k = (if 0 \<le> k then 2 ^ nat k else 1 / 2 ^ nat (- k))"

text \<open>\<open>ilog2 a\<close> is the integer \<open>e\<close> with \<open>2 ^ e \<le> a < 2 ^ (e + 1)\<close>, for \<open>0 < a\<close>.\<close>

definition ilog2 :: "rat \<Rightarrow> int" where
  "ilog2 a = (if 1 \<le> a then bitlen \<lfloor>a\<rfloor> - 1 else - bitlen (\<lceil>1 / a\<rceil> - 1))"

definition round_half_even :: "rat \<Rightarrow> int" where
  "round_half_even a =
     (let f = \<lfloor>a\<rfloor>; r = a - of_int f in
      if r < 1 / 2 then f else if 1 / 2 < r then f + 1 else if even f then f else f + 1)"

definition round_binary :: "nat \<Rightarrow> rat \<Rightarrow> rat" where
  "round_binary p q =
     (if q = 0 then 0
      else let ulp = pow2 (ilog2 \<bar>q\<bar> - (int p - 1))
           in sgn q * of_int (round_half_even (\<bar>q\<bar> / ulp)) * ulp)"

definition double_div :: "double \<Rightarrow> double \<Rightarrow> double" where
  "double_div a b = round_binary 53 (a / b)"

definition double_mul :: "double \<Rightarrow> double \<Rightarrow> double" where
  "double_mul a b = round_binary 53 (a * b)"

text \<open>An \<open>int\<close> of 32 bits converts to \<open>double\<close> exactly.\<close>

definition double_of_int32 :: "int32_t \<Rightarrow> double" where
  "double_of_int32 x = of_int (sint x)"

definition float_of_double :: "double \<Rightarrow> float" where
  "float_of_double x = round_binary 24 x"

text \<open>\<open>static_cast<uint32_t>\<close> of a \<open>double\<close> drops the fraction. C++ leaves the
  conversion undefined when the result does not fit; the model wraps there.\<close>

definition uint32_of_double :: "double \<Rightarrow> uint32_t" where
  "uint32_of_double x = word_of_int (if 0 \<le> x then \<lfloor>x\<rfloor> else \<lceil>x\<rceil>)"

section \<open>NetworkFetcher (NetworkFetcher.h, NetworkFetcher.cpp)\<close>

text \<open>
  \<open>DoFetch\<close> is a coroutine: it suspends at each \<open>co_await\<close> and \<open>Fetch\<close> returns to
  its caller at the first suspension. The model runs the body to its end and returns what
  the fetch did in the end: the \<open>CompleteFetch\<close> calls made on the host, in order, and the
  exception that left the coroutine body, if any (\<open>fire_and_forget\<close> then terminates the
  process). The HTTP client is assumed to complete every operation, with a result or
  with an exception. The two debug lines (\<open>LogUrl\<close> and the failure line) are left out.

  A call through the C++/WinRT projection throws \<open>winrt::hresult_error\<close> (or a class
  derived from it) for a failure \<open>HRESULT\<close>, except for \<open>E_OUTOFMEMORY\<close>, which it throws
  as \<open>std::bad_alloc\<close>; \<open>std::vector\<close> throws \<open>std::bad_alloc\<close> as well.
\<close>

type_synonym Host = nat

datatype exn = hresult_error string | std_bad_alloc

datatype fetch_delivery = CompleteFetch uint32_t uint32_t bool "uint8_t list" string

text \<open>A response: whether its status is a success status, the message of the
  \<open>hresult_error\<close> that \<open>EnsureSuccessStatusCode\<close> throws otherwise, and what reading the
  body gives.\<close>

record HttpResponseMessage =
  IsSuccessStatusCode :: bool
  status_error :: string
  ReadAsBufferAsync :: "exn + uint8_t list"

text \<open>The collaborators of one fetch: the \<open>Uri\<close> constructor (\<open>Some x\<close>: it throws
  \<open>x\<close>), the client's \<open>GetAsync\<close>, whether allocating the byte vector of a given length
  fails, and whether the host's \<open>CompleteFetch\<close> throws on given arguments.\<close>

record http_env =
  Uri_ctor :: "string \<Rightarrow> exn option"
  GetAsync :: "string \<Rightarrow> exn + HttpResponseMessage"
  vector_alloc_fails :: "nat \<Rightarrow> bool"
  CompleteFetch_raises ::
    "uint32_t \<Rightarrow> uint32_t \<Rightarrow> bool \<Rightarrow> uint8_t list \<Rightarrow> string \<Rightarrow> exn option"

record NetworkFetcher =
  m_host :: "Host option"

definition NetworkFetcher_ctor :: "Host option \<Rightarrow> NetworkFetcher" where
  "NetworkFetcher_ctor host = \<lparr>m_host = host\<rparr>"

definition EnsureSuccessStatusCode :: "HttpResponseMessage \<Rightarrow> exn option" where
  "EnsureSuccessStatusCode response =
     (if IsSuccessStatusCode response then None
      else Some (hresult_error (status_error response)))"

definition DoFetch ::
  "http_env \<Rightarrow> NetworkFetcher \<Rightarrow> uint32_t \<Rightarrow> uint32_t \<Rightarrow> string \<Rightarrow> string
     \<Rightarrow> fetch_delivery list \<times> exn option" where
  "DoFetch env f requestId docId url method =
     (let (delivered, raised) =
        (case Uri_ctor env url of
           Some x \<Rightarrow> ([], Some x)
         | None \<Rightarrow>
        (case GetAsync env url of
           Inl x \<Rightarrow> ([], Some x)
         | Inr response \<Rightarrow>
        (case EnsureSuccessStatusCode response of
           Some x \<Rightarrow> ([], Some x)
         | None \<Rightarrow>
        (case ReadAsBufferAsync response of
           Inl x \<Rightarrow> ([], Some x)
         | Inr buffer \<Rightarrow>
            if vector_alloc_fails env (length buffer) then ([], Some std_bad_alloc)
            else
              let bytes = buffer in
              (case m_host f of
                 None \<Rightarrow> ([], None)
               | Some _ \<Rightarrow>
                   ([CompleteFetch requestId docId True bytes ''''],
                    CompleteFetch_raises env requestId docId True bytes ''''))))))
      in case raised of
           None \<Rightarrow> (delivered, None)
         | Some (hresult_error message) \<Rightarrow>
             (case m_host f of
                None \<Rightarrow> (delivered, None)
              | Some _ \<Rightarrow>
                  (delivered @ [CompleteFetch requestId docId False [] message],
                   CompleteFetch_raises env requestId docId False [] message))
         | Some std_bad_alloc \<Rightarrow> (delivered, Some std_bad_alloc))"

definition Fetch ::
  "http_env \<Rightarrow> NetworkFetcher \<Rightarrow> uint32_t \<Rightarrow> uint32_t \<Rightarrow> string \<Rightarrow> string
     \<Rightarrow> fetch_delivery list \<times> exn option" where
  "Fetch env f requestId docId url method = DoFetch env f requestId docId url ''GET''"

section \<open>BlitzView (BlitzView.h, BlitzView.cpp of BlitzWinRTTestApp)\<close>

subsection \<open>The framework around the control\<close>

text \<open>
  A \<open>winrt::event_token\<close> is a struct with one field \<open>value\<close> of 64 bits; the model
  keeps the value. A default-constructed token has value 0. An event source hands out a
  new non-zero token for each handler added, and removing a token that is not registered
  does nothing. The world below holds the handlers this control has registered: on the
  panels' events and on the frame clock \<open>CompositionTarget::Rendering\<close>, the record of
  the add and remove calls on panels in the order made, and the calls made into the host.
\<close>

type_synonym event_token = int

datatype panel_event =
  Loaded | SizeChanged | PointerMoved | PointerPressed | PointerReleased | PointerWheelChanged

datatype panel_op =
    Added SwapChainPanel panel_event event_token
  | Removed SwapChainPanel panel_event event_token

datatype host_call =
    Host_ctor Attacher uint32_t uint32_t float string
  | RenderOnce
  | Resize uint32_t uint32_t float
  | PointerMove float float uint32_t uint32_t
  | PointerDown float float uint8_t uint32_t uint32_t
  | PointerUp float float uint8_t uint32_t uint32_t
  | WheelScroll double double

record world =
  panel_handlers :: "(SwapChainPanel \<times> panel_event \<times> event_token) list"
  rendering_handlers :: "event_token list"
  next_token :: event_token
  panel_log :: "panel_op list"
  host_calls :: "host_call list"

definition add_handler :: "SwapChainPanel \<Rightarrow> panel_event \<Rightarrow> world \<Rightarrow> event_token \<times> world" where
  "add_handler p k w =
     (next_token w,
      w\<lparr>panel_handlers := panel_handlers w @ [(p, k, next_token w)],
        next_token := next_token w + 1,
        panel_log := panel_log w @ [Added p k (next_token w)]\<rparr>)"

definition remove_handler :: "SwapChainPanel \<Rightarrow> panel_event \<Rightarrow> event_token \<Rightarrow> world \<Rightarrow> world" where
  "remove_handler p k t w =
     w\<lparr>panel_handlers := remove1 (p, k, t) (panel_handlers w),
       panel_log := panel_log w @ [Removed p k t]\<rparr>"

definition Rendering_add :: "world \<Rightarrow> event_token \<times> world" where
  "Rendering_add w =
     (next_token w,
      w\<lparr>rendering_handlers := rendering_handlers w @ [next_token w],
        next_token := next_token w + 1\<rparr>)"

definition Rendering_remove :: "event_token \<Rightarrow> world \<Rightarrow> world" where
  "Rendering_remove t w = w\<lparr>rendering_handlers := remove1 t (rendering_handlers w)\<rparr>"

text \<open>What the framework answers during one call into the control: the template part
  named \<open>swapChainPanel\<close>, whether the \<open>Attacher\<close> runtime class can be activated, the
  rasterization scale of the \<open>XamlRoot\<close> (if there is a root), the panel's size, and the
  host that the \<open>Host\<close> constructor returns (\<open>None\<close> when it throws).\<close>

record ui_env =
  GetTemplateChild :: "IInspectable option"
  Attacher_activation :: bool
  XamlRoot_RasterizationScale :: "double option"
  ActualWidth :: double
  ActualHeight :: double
  Host_activation :: "Host option"

subsection \<open>Pointer events\<close>

text \<open>\<open>PointerUpdateKind\<close> is the field of the pointer point's properties that names the
  button whose change raised the event. The handlers never read it.\<close>

datatype PointerUpdateKind =
    Other
  | LeftButtonPressed | LeftButtonReleased
  | RightButtonPressed | RightButtonReleased
  | MiddleButtonPressed | MiddleButtonReleased
  | XButton1Pressed | XButton1Released
  | XButton2Pressed | XButton2Released

record PointerRoutedEventArgs =
  KeyModifiers :: uint32_t
  Position_X :: float
  Position_Y :: float
  IsLeftButtonPressed :: bool
  IsRightButtonPressed :: bool
  IsMiddleButtonPressed :: bool
  IsXButton1Pressed :: bool
  IsXButton2Pressed :: bool
  MouseWheelDelta :: int32_t
  UpdateKind :: PointerUpdateKind

text \<open>\<open>Windows::System::VirtualKeyModifiers::Shift\<close>.\<close>

definition VirtualKeyModifiers_Shift :: uint32_t where
  "VirtualKeyModifiers_Shift = 4"

subsection \<open>The control\<close>

text \<open>The fields of \<open>BlitzView\<close> that \<open>BlitzView.cpp\<close> reads or writes.\<close>

record BlitzView =
  m_panel :: "SwapChainPanel option"
  m_attacher :: "Attacher option"
  m_host :: "Host option"
  m_renderLoopAttached :: bool
  m_loadedToken :: event_token
  m_sizeChangedToken :: event_token
  m_pointerMovedToken :: event_token
  m_pointerPressedToken :: event_token
  m_pointerReleasedToken :: event_token
  m_pointerWheelChangedToken :: event_token
  m_renderingToken :: event_token

definition BlitzView_ctor :: BlitzView where
  "BlitzView_ctor =
     \<lparr>m_panel = None, m_attacher = None, m_host = None, m_renderLoopAttached = False,
      m_loadedToken = 0, m_sizeChangedToken = 0, m_pointerMovedToken = 0,
      m_pointerPressedToken = 0, m_pointerReleasedToken = 0,
      m_pointerWheelChangedToken = 0, m_renderingToken = 0\<rparr>"

definition world0 :: world where
  "world0 = \<lparr>panel_handlers = [], rendering_handlers = [], next_token = 1,
             panel_log = [], host_calls = []\<rparr>"

definition initialHtml :: string where
  "initialHtml = ''<html><body style='background:#202020;color:#EEE;font-family:sans-serif'>Blitz host</body></html>''"

definition EnsureRenderLoop :: "BlitzView \<times> world \<Rightarrow> BlitzView \<times> world" where
  "EnsureRenderLoop = (\<lambda>(v, w).
     if m_renderLoopAttached v then (v, w)
     else let (token, w') = Rendering_add w
          in (v\<lparr>m_renderingToken := token, m_renderLoopAttached := True\<rparr>, w'))"

definition StopRenderLoop :: "BlitzView \<times> world \<Rightarrow> BlitzView \<times> world" where
  "StopRenderLoop = (\<lambda>(v, w).
     if \<not> m_renderLoopAttached v then (v, w)
     else (v\<lparr>m_renderLoopAttached := False\<rparr>, Rendering_remove (m_renderingToken v) w))"

text \<open>Every call into the host is inside \<open>try { ... } catch (...) { }\<close>: whether the host
  raises or not the handler goes on the same way, so the model records the call made.
  Only the \<open>Host\<close> constructor's failure changes what follows.\<close>

definition InitializeHostIfReady :: "ui_env \<Rightarrow> BlitzView \<times> world \<Rightarrow> BlitzView \<times> world" where
  "InitializeHostIfReady env = (\<lambda>(v, w).
     let v = (if m_panel v = None
              then (case GetTemplateChild env of
                      Some (Panel_object p) \<Rightarrow> v\<lparr>m_panel := Some p\<rparr>
                    | Some (Other_object _) \<Rightarrow> v
                    | None \<Rightarrow> v)
              else v)
     in case (m_host v, m_panel v) of
          (Some _, _) \<Rightarrow> (v, w)
        | (None, None) \<Rightarrow> (v, w)
        | (None, Some p) \<Rightarrow>
            if \<not> Attacher_activation env then (v\<lparr>m_attacher := None\<rparr>, w)
            else
              let attacher = fst (Attacher_ctor (Some (Panel_object p)));
                  v = v\<lparr>m_attacher := Some attacher\<rparr>;
                  scale = (case XamlRoot_RasterizationScale env of
                             None \<Rightarrow> 1 | Some s \<Rightarrow> float_of_double s);
                  width = max 1 (uint32_of_double (ActualWidth env));
                  height = max 1 (uint32_of_double (ActualHeight env));
                  w = w\<lparr>host_calls := host_calls w @
                          [Host_ctor attacher width height scale initialHtml]\<rparr>
              in case Host_activation env of
                   None \<Rightarrow> (v\<lparr>m_host := None\<rparr>, w)
                 | Some h \<Rightarrow> EnsureRenderLoop (v\<lparr>m_host := Some h\<rparr>, w))"

definition OnRendering :: "BlitzView \<Rightarrow> world \<Rightarrow> world" where
  "OnRendering v w =
     (if m_host v \<noteq> None then w\<lparr>host_calls := host_calls w @ [RenderOnce]\<rparr> else w)"

definition ForwardResize :: "ui_env \<Rightarrow> BlitzView \<Rightarrow> world \<Rightarrow> world" where
  "ForwardResize env v w =
     (if m_host v = None \<or> m_panel v = None then w
      else
        let scale = (case XamlRoot_RasterizationScale env of
                       None \<Rightarrow> 1 | Some s \<Rightarrow> float_of_double s);
            width = max 1 (uint32_of_double (ActualWidth env));
            height = max 1 (uint32_of_double (ActualHeight env))
        in w\<lparr>host_calls := host_calls w @ [Resize width height scale]\<rparr>)"

definition OnPanelLoaded :: "ui_env \<Rightarrow> BlitzView \<times> world \<Rightarrow> BlitzView \<times> world" where
  "OnPanelLoaded env = InitializeHostIfReady env"

definition OnPanelSizeChanged :: "ui_env \<Rightarrow> BlitzView \<Rightarrow> world \<Rightarrow> world" where
  "OnPanelSizeChanged env v w = ForwardResize env v w"

definition PanelPointerMoved :: "BlitzView \<Rightarrow> PointerRoutedEventArgs \<Rightarrow> world \<Rightarrow> world" where
  "PanelPointerMoved v e w =
     (if m_host v = None \<or> m_panel v = None then w
      else
        let modifiers = KeyModifiers e;
            buttons = 0;
            buttons = (if IsLeftButtonPressed e then buttons OR 1 else buttons);
            buttons = (if IsRightButtonPressed e then buttons OR 2 else buttons);
            buttons = (if IsMiddleButtonPressed e then buttons OR 4 else buttons);
            buttons = (if IsXButton1Pressed e then buttons OR 8 else buttons);
            buttons = (if IsXButton2Pressed e then buttons OR 16 else buttons)
        in w\<lparr>host_calls := host_calls w @
               [PointerMove (Position_X e) (Position_Y e) buttons modifiers]\<rparr>)"

definition PanelPointerPressed :: "BlitzView \<Rightarrow> PointerRoutedEventArgs \<Rightarrow> world \<Rightarrow> world" where
  "PanelPointerPressed v e w =
     (if m_host v = None \<or> m_panel v = None then w
      else
        let button = (if IsRightButtonPressed e then 2
                      else if IsMiddleButtonPressed e then 1 else 0);
            buttons = 0;
            buttons = (if IsLeftButtonPressed e then buttons OR 1 else buttons);
            buttons = (if IsRightButtonPressed e then buttons OR 2 else buttons);
            buttons = (if IsMiddleButtonPressed e then buttons OR 4 else buttons);
            buttons = (if IsXButton1Pressed e then buttons OR 8 else buttons);
            buttons = (if IsXButton2Pressed e then buttons OR 16 else buttons);
            modifiers = KeyModifiers e
        in w\<lparr>host_calls := host_calls w @
               [PointerDown (Position_X e) (Position_Y e) button buttons modifiers]\<rparr>)"

definition PanelPointerReleased :: "BlitzView \<Rightarrow> PointerRoutedEventArgs \<Rightarrow> world \<Rightarrow> world" where
  "PanelPointerReleased v e w =
     (if m_host v = None \<or> m_panel v = None then w
      else
        let button = 0;
            modifiers = KeyModifiers e
        in w\<lparr>host_calls := host_calls w @
               [PointerUp (Position_X e) (Position_Y e) button 0 modifiers]\<rparr>)"

text \<open>The wheel handler also returns whether it marked the event as handled.\<close>

definition PanelPointerWheelChanged ::
  "BlitzView \<Rightarrow> PointerRoutedEventArgs \<Rightarrow> world \<Rightarrow> world \<times> bool" where
  "PanelPointerWheelChanged v e w =
     (if m_host v = None \<or> m_panel v = None then (w, False)
      else
        let raw = MouseWheelDelta e;
            linesPerNotch = 1;
            pixelsPerLine = 48;
            dy = double_mul (double_mul (double_div (double_of_int32 raw) 120) linesPerNotch)
                   pixelsPerLine;
            dx = 0;
            (dx, dy) = (if KeyModifiers e AND VirtualKeyModifiers_Shift = VirtualKeyModifiers_Shift
                        then (dy, 0) else (dx, dy))
        in (w\<lparr>host_calls := host_calls w @ [WheelScroll dx dy]\<rparr>, True))"

text \<open>The lambda \<open>clear\<close> of \<open>OnApplyTemplate\<close>: a token that is set is removed from
  the panel's event and reset to 0.\<close>

definition clear :: "SwapChainPanel \<Rightarrow> panel_event \<Rightarrow> event_token \<Rightarrow> world \<Rightarrow> event_token \<times> world" where
  "clear p k token w = (if token \<noteq> 0 then (0, remove_handler p k token w) else (token, w))"

definition OnApplyTemplate :: "ui_env \<Rightarrow> BlitzView \<times> world \<Rightarrow> BlitzView \<times> world" where
  "OnApplyTemplate env = (\<lambda>(v, w).
     let (v, w) =
           (case m_panel v of
              None \<Rightarrow> (v, w)
            | Some p \<Rightarrow>
                let (t, w) = clear p Loaded (m_loadedToken v) w;
                    v = v\<lparr>m_loadedToken := t\<rparr>;
                    (t, w) = clear p SizeChanged (m_sizeChangedToken v) w;
                    v = v\<lparr>m_sizeChangedToken := t\<rparr>;
                    (t, w) = clear p PointerMoved (m_pointerMovedToken v) w;
                    v = v\<lparr>m_pointerMovedToken := t\<rparr>;
                    (t, w) = clear p PointerPressed (m_pointerPressedToken v) w;
                    v = v\<lparr>m_pointerPressedToken := t\<rparr>;
                    (t, w) = clear p PointerReleased (m_pointerReleasedToken v) w;
                    v = v\<lparr>m_pointerReleasedToken := t\<rparr>;
                    (t, w) = clear p PointerWheelChanged (m_pointerWheelChangedToken v) w;
                    v = v\<lparr>m_pointerWheelChangedToken := t\<rparr>
                in (v, w));
         v = v\<lparr>m_panel := None\<rparr>;
         (v, w) = InitializeHostIfReady env (v, w)
     in case m_panel v of
          None \<Rightarrow> (v, w)
        | Some p \<Rightarrow>
            let (t, w) = add_handler p Loaded w;
                v = v\<lparr>m_loadedToken := t\<rparr>;
                (t, w) = add_handler p SizeChanged w;
                v = v\<lparr>m_sizeChangedToken := t\<rparr>;
                (t, w) = add_handler p PointerMoved w;
                v = v\<lparr>m_pointerMovedToken := t\<rparr>;
                (t, w) = add_handler p PointerPressed w;
                v = v\<lparr>m_pointerPressedToken := t\<rparr>;
                (t, w) = add_handler p PointerReleased w;
                v = v\<lparr>m_pointerReleasedToken := t\<rparr>;
                (t, w) = add_handler p PointerWheelChanged w;
                v = v\<lparr>m_pointerWheelChangedToken := t\<rparr>
            in (v, w))"

section \<open>Notions used in the properties\<close>

subsection \<open>Fetch\<close>

text \<open>No step of the fetch of \<open>url\<close> raises anything but an \<open>hresult_error\<close>.\<close>

definition only_hresult_errors :: "http_env \<Rightarrow> string \<Rightarrow> bool" where
  "only_hresult_errors env url =
     (Uri_ctor env url \<noteq> Some std_bad_alloc
      \<and> (case GetAsync env url of
           Inl x \<Rightarrow> x \<noteq> std_bad_alloc
         | Inr response \<Rightarrow>
             (case ReadAsBufferAsync response of
                Inl x \<Rightarrow> x \<noteq> std_bad_alloc
              | Inr buffer \<Rightarrow> \<not> vector_alloc_fails env (length buffer))))"

text \<open>Sample collaborators: a network that answers every request with the response
  \<open>r\<close>, an unreachable network, and two hosts, one that accepts every completion and
  one that rejects every completion with a failure \<open>HRESULT\<close>.\<close>

definition accepting_host ::
  "uint32_t \<Rightarrow> uint32_t \<Rightarrow> bool \<Rightarrow> uint8_t list \<Rightarrow> string \<Rightarrow> exn option" where
  "accepting_host requestId docId success bytes errorMessage = None"

definition rejecting_host ::
  "uint32_t \<Rightarrow> uint32_t \<Rightarrow> bool \<Rightarrow> uint8_t list \<Rightarrow> string \<Rightarrow> exn option" where
  "rejecting_host requestId docId success bytes errorMessage = Some (hresult_error ''E_FAIL'')"

definition answering :: "HttpResponseMessage \<Rightarrow> http_env" where
  "answering r = \<lparr>Uri_ctor = (\<lambda>_. None), GetAsync = (\<lambda>_. Inr r),
                  vector_alloc_fails = (\<lambda>_. False), CompleteFetch_raises = accepting_host\<rparr>"

definition unreachable :: http_env where
  "unreachable = \<lparr>Uri_ctor = (\<lambda>_. None),
                  GetAsync = (\<lambda>_. Inl (hresult_error ''The server name or address could not be resolved'')),
                  vector_alloc_fails = (\<lambda>_. False), CompleteFetch_raises = accepting_host\<rparr>"

definition response_HI :: HttpResponseMessage where
  "response_HI = \<lparr>IsSuccessStatusCode = True, status_error = '''',
                   ReadAsBufferAsync = Inr [0x48, 0x49]\<rparr>"

definition response_404 :: HttpResponseMessage where
  "response_404 = \<lparr>IsSuccessStatusCode = False, status_error = ''Not found (404).'',
                    ReadAsBufferAsync = Inr [0x3C]\<rparr>"

definition response_out_of_memory :: HttpResponseMessage where
  "response_out_of_memory = \<lparr>IsSuccessStatusCode = True, status_error = '''',
                              ReadAsBufferAsync = Inl std_bad_alloc\<rparr>"

subsection \<open>Render loop\<close>

datatype loop_call = start | stop

fun run_loop :: "loop_call list \<Rightarrow> BlitzView \<times> world \<Rightarrow> BlitzView \<times> world" where
  "run_loop [] s = s"
| "run_loop (start # cs) s = run_loop cs (EnsureRenderLoop s)"
| "run_loop (stop # cs) s = run_loop cs (StopRenderLoop s)"

text \<open>The control's subscriptions to the frame clock: none when the flag is off, the one
  named by \<open>m_renderingToken\<close> when it is on.\<close>

definition loop_inv :: "BlitzView \<times> world \<Rightarrow> bool" where
  "loop_inv = (\<lambda>(v, w).
     rendering_handlers w = (if m_renderLoopAttached v then [m_renderingToken v] else []))"

subsection \<open>Sizes\<close>


text \<open>A first template application in which the panel reports the size 0 by 0, and a
  control that is bound to panel 7 and has a host.\<close>

definition env_0x0 :: ui_env where
  "env_0x0 = \<lparr>GetTemplateChild = Some (Panel_object 7), Attacher_activation = True,
              XamlRoot_RasterizationScale = Some (3 / 2), ActualWidth = 0, ActualHeight = 0,
              Host_activation = Some 1\<rparr>"

definition env_800x600 :: ui_env where
  "env_800x600 = \<lparr>GetTemplateChild = Some (Panel_object 8), Attacher_activation = True,
              XamlRoot_RasterizationScale = None, ActualWidth = 800, ActualHeight = 600,
              Host_activation = Some 2\<rparr>"

definition active_view :: BlitzView where
  "active_view = BlitzView_ctor\<lparr>m_panel := Some 7, m_host := Some 1\<rparr>"

subsection \<open>Pointer events\<close>

text \<open>The mask the data model asks for: bit 0 left, bit 1 right, bit 2 middle, bit 3
  and bit 4 the two extra buttons, each added on its own.\<close>

definition button_bits :: "PointerRoutedEventArgs \<Rightarrow> uint32_t" where
  "button_bits e =
     (if IsLeftButtonPressed e then 1 else 0) + (if IsRightButtonPressed e then 2 else 0)
     + (if IsMiddleButtonPressed e then 4 else 0) + (if IsXButton1Pressed e then 8 else 0)
     + (if IsXButton2Pressed e then 16 else 0)"







text \<open>Sample events at position (10, 20) with no modifier key: the pointer at rest, the
  pointer moved with the left button held, the left button pressed while the right one
  is held, the right button pressed while the left one is held, the middle button
  pressed while the left one is held, the right button released while the left one is
  still held, and the right button released or pressed with no other button down.\<close>

definition event0 :: PointerRoutedEventArgs where
  "event0 = \<lparr>KeyModifiers = 0, Position_X = 10, Position_Y = 20,
             IsLeftButtonPressed = False, IsRightButtonPressed = False,
             IsMiddleButtonPressed = False, IsXButton1Pressed = False,
             IsXButton2Pressed = False, MouseWheelDelta = 0, UpdateKind = Other\<rparr>"


definition moved_left_held :: PointerRoutedEventArgs where
  "moved_left_held = event0\<lparr>IsLeftButtonPressed := True\<rparr>"



definition right_released_left_held :: PointerRoutedEventArgs where
  "right_released_left_held =
     event0\<lparr>IsLeftButtonPressed := True, UpdateKind := RightButtonReleased\<rparr>"


definition right_pressed :: PointerRoutedEventArgs where
  "right_pressed = event0\<lparr>IsRightButtonPressed := True, UpdateKind := RightButtonPressed\<rparr>"

definition wheel_notch :: PointerRoutedEventArgs where
  "wheel_notch = event0\<lparr>MouseWheelDelta := 120\<rparr>"

definition shift_wheel_notch :: PointerRoutedEventArgs where
  "shift_wheel_notch = event0\<lparr>MouseWheelDelta := 120, KeyModifiers := 4\<rparr>"

subsection \<open>Wheel\<close>

text \<open>The scroll amount as the specification writes it, (d / 120) * 1 * 48, in the
  arithmetic of \<open>double\<close>.\<close>

definition scroll_amount :: "int32_t \<Rightarrow> double" where
  "scroll_amount d = double_mul (double_mul (double_div (double_of_int32 d) 120) 1) 48"

subsection \<open>Template application\<close>

text \<open>The handlers that the control's fields account for: none without a panel, and on
  the panel held one handler for each of the six events, under the token stored.\<close>

definition subscribed :: "BlitzView \<Rightarrow> (SwapChainPanel \<times> panel_event \<times> event_token) list" where
  "subscribed v =
     (case m_panel v of
        None \<Rightarrow> []
      | Some p \<Rightarrow>
          [(p, Loaded, m_loadedToken v), (p, SizeChanged, m_sizeChangedToken v),
           (p, PointerMoved, m_pointerMovedToken v), (p, PointerPressed, m_pointerPressedToken v),
           (p, PointerReleased, m_pointerReleasedToken v),
           (p, PointerWheelChanged, m_pointerWheelChangedToken v)])"

text \<open>The state of a control between two calls: the registered handlers are the ones its
  fields account for, and every token in use is one the framework has handed out.\<close>

definition wired :: "BlitzView \<times> world \<Rightarrow> bool" where
  "wired = (\<lambda>(v, w).
     panel_handlers w = subscribed v
     \<and> list_all (\<lambda>(p, k, t). t \<noteq> 0 \<and> t < next_token w) (panel_handlers w)
     \<and> 0 < next_token w)"

definition handlers_for ::
  "panel_event \<Rightarrow> world \<Rightarrow> (SwapChainPanel \<times> panel_event \<times> event_token) list" where
  "handlers_for k w = filter (\<lambda>(p, k', t). k' = k) (panel_handlers w)"

fun is_Added :: "panel_op \<Rightarrow> bool" where
  "is_Added (Added _ _ _) = True"
| "is_Added (Removed _ _ _) = False"

text \<open>What the framework can call on the control, and the control's life as a sequence
  of such calls. The framework calls a handler of the panel's Loaded event only while one
  is registered; the pointer handlers are also reached through the control's own
  \<open>OnPointer...\<close> overrides, which forward to them.\<close>

datatype ui_event =
    TemplateApplied ui_env
  | PanelLoaded ui_env
  | PanelSizeChanged ui_env
  | PointerMovedEvent PointerRoutedEventArgs
  | PointerPressedEvent PointerRoutedEventArgs
  | PointerReleasedEvent PointerRoutedEventArgs
  | PointerWheelEvent PointerRoutedEventArgs
  | FrameTick

fun dispatch :: "ui_event \<Rightarrow> BlitzView \<times> world \<Rightarrow> BlitzView \<times> world" where
  "dispatch (TemplateApplied env) s = OnApplyTemplate env s"
| "dispatch (PanelLoaded env) (v, w) =
     (if handlers_for Loaded w = [] then (v, w) else OnPanelLoaded env (v, w))"
| "dispatch (PanelSizeChanged env) (v, w) = (v, OnPanelSizeChanged env v w)"
| "dispatch (PointerMovedEvent e) (v, w) = (v, PanelPointerMoved v e w)"
| "dispatch (PointerPressedEvent e) (v, w) = (v, PanelPointerPressed v e w)"
| "dispatch (PointerReleasedEvent e) (v, w) = (v, PanelPointerReleased v e w)"
| "dispatch (PointerWheelEvent e) (v, w) = (v, fst (PanelPointerWheelChanged v e w))"
| "dispatch FrameTick (v, w) = (v, OnRendering v w)"

fun run :: "ui_event list \<Rightarrow> BlitzView \<times> world \<Rightarrow> BlitzView \<times> world" where
  "run [] s = s"
| "run (ev # evs) s = run evs (dispatch ev s)"

text \<open>The three parts of \<open>OnApplyTemplate\<close>, for the proofs: the removal of the old
  handlers with the reset of the panel reference, the call of
  \<open>InitializeHostIfReady\<close> in between, and the registration on the panel found.\<close>

definition unsubscribe_all :: "BlitzView \<times> world \<Rightarrow> BlitzView \<times> world" where
  "unsubscribe_all = (\<lambda>(v, w).
     let (v, w) =
           (case m_panel v of
              None \<Rightarrow> (v, w)
            | Some p \<Rightarrow>
                let (t, w) = clear p Loaded (m_loadedToken v) w;
                    v = v\<lparr>m_loadedToken := t\<rparr>;
                    (t, w) = clear p SizeChanged (m_sizeChangedToken v) w;
                    v = v\<lparr>m_sizeChangedToken := t\<rparr>;
                    (t, w) = clear p PointerMoved (m_pointerMovedToken v) w;
                    v = v\<lparr>m_pointerMovedToken := t\<rparr>;
                    (t, w) = clear p PointerPressed (m_pointerPressedToken v) w;
                    v = v\<lparr>m_pointerPressedToken := t\<rparr>;
                    (t, w) = clear p PointerReleased (m_pointerReleasedToken v) w;
                    v = v\<lparr>m_pointerReleasedToken := t\<rparr>;
                    (t, w) = clear p PointerWheelChanged (m_pointerWheelChangedToken v) w;
                    v = v\<lparr>m_pointerWheelChangedToken := t\<rparr>
                in (v, w))
     in (v\<lparr>m_panel := None\<rparr>, w))"

definition subscribe_all :: "BlitzView \<times> world \<Rightarrow> BlitzView \<times> world" where
  "subscribe_all = (\<lambda>(v, w).
     case m_panel v of
          None \<Rightarrow> (v, w)
        | Some p \<Rightarrow>
            let (t, w) = add_handler p Loaded w;
                v = v\<lparr>m_loadedToken := t\<rparr>;
                (t, w) = add_handler p SizeChanged w;
                v = v\<lparr>m_sizeChangedToken := t\<rparr>;
                (t, w) = add_handler p PointerMoved w;
                v = v\<lparr>m_pointerMovedToken := t\<rparr>;
                (t, w) = add_handler p PointerPressed w;
                v = v\<lparr>m_pointerPressedToken := t\<rparr>;
                (t, w) = add_handler p PointerReleased w;
                v = v\<lparr>m_pointerReleasedToken := t\<rparr>;
                (t, w) = add_handler p PointerWheelChanged w;
                v = v\<lparr>m_pointerWheelChangedToken := t\<rparr>
            in (v, w))"

text \<open>The control and the world after the first template application \<open>env_0x0\<close>.\<close>

definition bound_view :: BlitzView where
  "bound_view =
     \<lparr>m_panel = Some 7,
      m_attacher = Some \<lparr>Attacher.m_panel = Some 7, m_lastSwapchainPtr = 0\<rparr>,
      m_host = Some 1, m_renderLoopAttached = True, m_loadedToken = 2,
      m_sizeChangedToken = 3, m_pointerMovedToken = 4, m_pointerPressedToken = 5,
      m_pointerReleasedToken = 6, m_pointerWheelChangedToken = 7, m_renderingToken = 1\<rparr>"

definition bound_world :: world where
  "bound_world =
     \<lparr>panel_handlers =
        [(7, Loaded, 2), (7, SizeChanged, 3), (7, PointerMoved, 4), (7, PointerPressed, 5),
         (7, PointerReleased, 6), (7, PointerWheelChanged, 7)],
      rendering_handlers = [1], next_token = 8,
      panel_log =
        [Added 7 Loaded 2, Added 7 SizeChanged 3, Added 7 PointerMoved 4,
         Added 7 PointerPressed 5, Added 7 PointerReleased 6, Added 7 PointerWheelChanged 7],
      host_calls =
        [Host_ctor \<lparr>Attacher.m_panel = Some 7, m_lastSwapchainPtr = 0\<rparr> 1 1 (3 / 2)
           initialHtml]\<rparr>"

section \<open>Properties of the attacher\<close>

text \<open>
  C1. For every call of \<open>AttachSwapChain\<close> whose handle is 0 or the reserved sentinel
  \<open>0xFEEDFACECAFEBEEF\<close>, nothing is forwarded to the panel: the effects of the call
  contain neither the capability query nor a \<open>SetSwapChain\<close> call (they are one debug
  line).
\<close>

theorem C1_no_attach_forwarded:
  assumes "swapchainPtr = 0 \<or> swapchainPtr = test_sentinel"
  shows "filter is_panel_call (snd (AttachSwapChain env a swapchainPtr)) = []
       \<and> (\<forall>p. QueryInterface p \<notin> set (snd (AttachSwapChain env a swapchainPtr)))
       \<and> (\<forall>p h. SetSwapChain p h \<notin> set (snd (AttachSwapChain env a swapchainPtr)))"
  using assms by (auto simp: AttachSwapChain_def test_sentinel_def Let_def)

theorem C1_witness:
  "filter is_panel_call
     (snd (AttachSwapChain all_ok \<lparr>Attacher.m_panel = Some 7, m_lastSwapchainPtr = 0\<rparr> 0)) = []
   \<and> filter is_panel_call
     (snd (AttachSwapChain all_ok \<lparr>Attacher.m_panel = Some 7, m_lastSwapchainPtr = 0\<rparr> test_sentinel)) = []
   \<and> filter is_panel_call
     (snd (AttachSwapChain all_ok \<lparr>Attacher.m_panel = Some 7, m_lastSwapchainPtr = 0\<rparr> 4096)) =
       [QueryInterface 7, SetSwapChain 7 4096]"
proof -
  have z: "(0::uint64_t) = 0 \<or> (0::uint64_t) = test_sentinel" by simp
  have s: "test_sentinel = 0 \<or> test_sentinel = test_sentinel" by simp
  have "filter is_panel_call
     (snd (AttachSwapChain all_ok \<lparr>Attacher.m_panel = Some 7, m_lastSwapchainPtr = 0\<rparr> 4096)) =
       [QueryInterface 7, SetSwapChain 7 4096]"
    by (simp add: AttachSwapChain_def all_ok_def FAILED_def Let_def)
  with C1_no_attach_forwarded [OF z, of all_ok "\<lparr>Attacher.m_panel = Some 7, m_lastSwapchainPtr = 0\<rparr>"]
       C1_no_attach_forwarded [OF s, of all_ok "\<lparr>Attacher.m_panel = Some 7, m_lastSwapchainPtr = 0\<rparr>"]
  show ?thesis by blast
qed

text \<open>
  C10. Every call of \<open>AttachSwapChain\<close>, the ignored ones included, stores the given
  handle in \<open>m_lastSwapchainPtr\<close>, and that is the only change to the attacher: the
  panel reference is kept. The store comes first: the state after the call is the one
  with the field overwritten whatever branch is taken. An ignored call touches the
  panel not at all, and it is not a no-op on the attacher whenever the handle differs
  from the one stored before.
\<close>

theorem C10_last_pointer_overwritten:
  "fst (AttachSwapChain env a swapchainPtr) = a\<lparr>m_lastSwapchainPtr := swapchainPtr\<rparr>
   \<and> m_lastSwapchainPtr (fst (AttachSwapChain env a swapchainPtr)) = swapchainPtr
   \<and> Attacher.m_panel (fst (AttachSwapChain env a swapchainPtr)) = Attacher.m_panel a
   \<and> (ignored_attach a swapchainPtr \<longrightarrow>
        filter is_panel_call (snd (AttachSwapChain env a swapchainPtr)) = []
        \<and> (m_lastSwapchainPtr a \<noteq> swapchainPtr \<longrightarrow>
             fst (AttachSwapChain env a swapchainPtr) \<noteq> a))"
proof -
  have st: "fst (AttachSwapChain env a swapchainPtr) = a\<lparr>m_lastSwapchainPtr := swapchainPtr\<rparr>"
    by (simp add: AttachSwapChain_def Let_def split: option.splits)
  have ne: "m_lastSwapchainPtr a \<noteq> swapchainPtr \<Longrightarrow> a\<lparr>m_lastSwapchainPtr := swapchainPtr\<rparr> \<noteq> a"
    by (cases a) auto
  have quiet: "ignored_attach a swapchainPtr \<Longrightarrow>
      filter is_panel_call (snd (AttachSwapChain env a swapchainPtr)) = []"
    by (auto simp: ignored_attach_def AttachSwapChain_def test_sentinel_def Let_def)
  show ?thesis using st ne quiet by simp
qed

theorem C10_witness:
  "ignored_attach \<lparr>Attacher.m_panel = None, m_lastSwapchainPtr = 5\<rparr> 4096
   \<and> ignored_attach \<lparr>Attacher.m_panel = Some 7, m_lastSwapchainPtr = 5\<rparr> 0
   \<and> ignored_attach \<lparr>Attacher.m_panel = Some 7, m_lastSwapchainPtr = 5\<rparr> test_sentinel
   \<and> fst (AttachSwapChain all_ok \<lparr>Attacher.m_panel = None, m_lastSwapchainPtr = 5\<rparr> 4096)
       = \<lparr>Attacher.m_panel = None, m_lastSwapchainPtr = 4096\<rparr>
   \<and> fst (AttachSwapChain all_ok \<lparr>Attacher.m_panel = Some 7, m_lastSwapchainPtr = 5\<rparr> 0)
       \<noteq> \<lparr>Attacher.m_panel = Some 7, m_lastSwapchainPtr = 5\<rparr>
   \<and> fst (AttachSwapChain all_ok \<lparr>Attacher.m_panel = Some 7, m_lastSwapchainPtr = 5\<rparr> test_sentinel)
       \<noteq> \<lparr>Attacher.m_panel = Some 7, m_lastSwapchainPtr = 5\<rparr>"
proof -
  have i1: "ignored_attach \<lparr>Attacher.m_panel = None, m_lastSwapchainPtr = 5\<rparr> 4096"
    by (simp add: ignored_attach_def)
  have i2: "ignored_attach \<lparr>Attacher.m_panel = Some 7, m_lastSwapchainPtr = 5\<rparr> 0"
    by (simp add: ignored_attach_def)
  have i3: "ignored_attach \<lparr>Attacher.m_panel = Some 7, m_lastSwapchainPtr = 5\<rparr> test_sentinel"
    by (simp add: ignored_attach_def)
  have n3: "m_lastSwapchainPtr \<lparr>Attacher.m_panel = Some 7, m_lastSwapchainPtr = 5\<rparr> \<noteq> test_sentinel"
    by (simp add: test_sentinel_def)
  show ?thesis
    using i1 i2 i3 n3
      C10_last_pointer_overwritten [of all_ok "\<lparr>Attacher.m_panel = None, m_lastSwapchainPtr = 5\<rparr>" 4096]
      C10_last_pointer_overwritten [of all_ok "\<lparr>Attacher.m_panel = Some 7, m_lastSwapchainPtr = 5\<rparr>" 0]
      C10_last_pointer_overwritten [of all_ok "\<lparr>Attacher.m_panel = Some 7, m_lastSwapchainPtr = 5\<rparr>" test_sentinel]
    by simp
qed

section \<open>Properties of the fetcher\<close>

text \<open>
  C3 (as the code has it). A fetch on a fetcher whose host reference is set, with a host
  whose \<open>CompleteFetch\<close> returns normally, delivers exactly one result whenever every
  fault raised on the way is an \<open>hresult_error\<close>: for a success status and a body that
  was read, \<open>success = true\<close> with the whole body and the empty message; for a
  non-success status, for a transport error, and for an \<open>hresult_error\<close> raised by the
  \<open>Uri\<close> constructor or while reading the body, \<open>success = false\<close> with no bytes and the
  message of the error. In every case \<open>requestId\<close> and \<open>docId\<close> are the ones passed in,
  the method passed in plays no part, and no fault leaves the coroutine body.
\<close>

theorem C3_one_delivery_for_hresult_errors:
  assumes host: "NetworkFetcher.m_host f = Some h"
    and quiet: "\<forall>i d s b m. CompleteFetch_raises env i d s b m = None"
  shows "(\<forall>resp body. Uri_ctor env url = None \<and> GetAsync env url = Inr resp
            \<and> IsSuccessStatusCode resp \<and> ReadAsBufferAsync resp = Inr body
            \<and> \<not> vector_alloc_fails env (length body) \<longrightarrow>
          Fetch env f rid did url method = ([CompleteFetch rid did True body ''''], None))
     \<and> (\<forall>resp. Uri_ctor env url = None \<and> GetAsync env url = Inr resp
            \<and> \<not> IsSuccessStatusCode resp \<longrightarrow>
          Fetch env f rid did url method =
            ([CompleteFetch rid did False [] (status_error resp)], None))
     \<and> (\<forall>msg. Uri_ctor env url = None \<and> GetAsync env url = Inl (hresult_error msg) \<longrightarrow>
          Fetch env f rid did url method = ([CompleteFetch rid did False [] msg], None))
     \<and> (\<forall>msg. Uri_ctor env url = Some (hresult_error msg) \<longrightarrow>
          Fetch env f rid did url method = ([CompleteFetch rid did False [] msg], None))
     \<and> (\<forall>resp msg. Uri_ctor env url = None \<and> GetAsync env url = Inr resp
            \<and> IsSuccessStatusCode resp \<and> ReadAsBufferAsync resp = Inl (hresult_error msg) \<longrightarrow>
          Fetch env f rid did url method = ([CompleteFetch rid did False [] msg], None))
     \<and> (only_hresult_errors env url \<longrightarrow>
          (\<exists>s b m. Fetch env f rid did url method = ([CompleteFetch rid did s b m], None)
             \<and> (s \<longrightarrow> m = '''') \<and> (\<not> s \<longrightarrow> b = [])))"
  using host quiet
  by (auto simp: Fetch_def DoFetch_def EnsureSuccessStatusCode_def only_hresult_errors_def Let_def
      split: option.splits sum.splits exn.splits if_splits)

theorem C3_witness:
  "NetworkFetcher.m_host (NetworkFetcher_ctor (Some 1)) = Some 1
   \<and> CompleteFetch_raises (answering response_HI) 7 3 True [0x48, 0x49] '''' = None
   \<and> only_hresult_errors (answering response_HI) ''https://example.test/a''
   \<and> only_hresult_errors (answering response_404) ''https://example.test/a''
   \<and> only_hresult_errors unreachable ''https://example.test/a''
   \<and> Fetch (answering response_HI) (NetworkFetcher_ctor (Some 1)) 7 3
         ''https://example.test/a'' ''POST''
       = ([CompleteFetch 7 3 True [0x48, 0x49] ''''], None)
   \<and> Fetch (answering response_404) (NetworkFetcher_ctor (Some 1)) 7 3
         ''https://example.test/a'' ''GET''
       = ([CompleteFetch 7 3 False [] ''Not found (404).''], None)
   \<and> Fetch unreachable (NetworkFetcher_ctor (Some 1)) 7 3 ''https://example.test/a'' ''GET''
       = ([CompleteFetch 7 3 False [] ''The server name or address could not be resolved''],
          None)"
proof -
  let ?f = "NetworkFetcher_ctor (Some 1)"
  let ?url = "''https://example.test/a''"
  have host: "NetworkFetcher.m_host ?f = Some 1"
    by (simp add: NetworkFetcher_ctor_def)
  have q1: "\<forall>i d s b m. CompleteFetch_raises (answering response_HI) i d s b m = None"
    by (simp add: answering_def accepting_host_def)
  have q2: "\<forall>i d s b m. CompleteFetch_raises (answering response_404) i d s b m = None"
    by (simp add: answering_def accepting_host_def)
  have q3: "\<forall>i d s b m. CompleteFetch_raises unreachable i d s b m = None"
    by (simp add: unreachable_def accepting_host_def)
  have o1: "only_hresult_errors (answering response_HI) ?url"
    by (simp add: only_hresult_errors_def answering_def response_HI_def)
  have o2: "only_hresult_errors (answering response_404) ?url"
    by (simp add: only_hresult_errors_def answering_def response_404_def)
  have o3: "only_hresult_errors unreachable ?url"
    by (simp add: only_hresult_errors_def unreachable_def)
  have e1: "Uri_ctor (answering response_HI) ?url = None
      \<and> GetAsync (answering response_HI) ?url = Inr response_HI
      \<and> IsSuccessStatusCode response_HI
      \<and> ReadAsBufferAsync response_HI = Inr [0x48, 0x49]
      \<and> \<not> vector_alloc_fails (answering response_HI) (length [0x48 :: uint8_t, 0x49])"
    by (simp add: answering_def response_HI_def)
  have e2: "Uri_ctor (answering response_404) ?url = None
      \<and> GetAsync (answering response_404) ?url = Inr response_404
      \<and> \<not> IsSuccessStatusCode response_404"
    by (simp add: answering_def response_404_def)
  have e3: "Uri_ctor unreachable ?url = None
      \<and> GetAsync unreachable ?url
          = Inl (hresult_error ''The server name or address could not be resolved'')"
    by (simp add: unreachable_def)
  have s404: "status_error response_404 = ''Not found (404).''"
    by (simp add: response_404_def)
  from C3_one_delivery_for_hresult_errors [OF host q1, of ?url 7 3 "''POST''"] e1
  have r1: "Fetch (answering response_HI) ?f 7 3 ?url ''POST''
      = ([CompleteFetch 7 3 True [0x48, 0x49] ''''], None)"
    by blast
  from C3_one_delivery_for_hresult_errors [OF host q2, of ?url 7 3 "''GET''"] e2
  have r2: "Fetch (answering response_404) ?f 7 3 ?url ''GET''
      = ([CompleteFetch 7 3 False [] (status_error response_404)], None)"
    by blast
  from C3_one_delivery_for_hresult_errors [OF host q3, of ?url 7 3 "''GET''"] e3
  have r3: "Fetch unreachable ?f 7 3 ?url ''GET''
      = ([CompleteFetch 7 3 False [] ''The server name or address could not be resolved''],
         None)"
    by blast
  from q1 have q1': "CompleteFetch_raises (answering response_HI) 7 3 True [0x48, 0x49] '''' = None"
    by blast
  show ?thesis
    using host q1' o1 o2 o3 r1 r2 [unfolded s404] r3 by (intro conjI)
qed

text \<open>
  The claim as stated fails in two ways. A fault that is not an \<open>hresult_error\<close> is not
  caught: when reading the body fails with \<open>E_OUTOFMEMORY\<close>, which the projection throws
  as \<open>std::bad_alloc\<close>, nothing is delivered to the host and the fault leaves the
  coroutine body. And the success delivery sits inside the \<open>try\<close> block: when the host's
  \<open>CompleteFetch\<close> fails, the handler delivers a second, failure result for the same
  request, and the fault of that second call leaves the coroutine body.
\<close>

theorem C3_counterexample:
  "Fetch (answering response_out_of_memory) (NetworkFetcher_ctor (Some 1)) 7 3
       ''https://example.test/a'' ''GET''
     = ([], Some std_bad_alloc)
   \<and> Fetch ((answering response_HI)\<lparr>CompleteFetch_raises := rejecting_host\<rparr>)
       (NetworkFetcher_ctor (Some 1)) 7 3 ''https://example.test/a'' ''GET''
     = ([CompleteFetch 7 3 True [0x48, 0x49] '''', CompleteFetch 7 3 False [] ''E_FAIL''],
        Some (hresult_error ''E_FAIL''))"
  by (simp add: Fetch_def DoFetch_def answering_def response_out_of_memory_def response_HI_def
      NetworkFetcher_ctor_def EnsureSuccessStatusCode_def rejecting_host_def)

section \<open>Properties of the render loop\<close>

lemma loop_inv_ctor: "loop_inv (BlitzView_ctor, world0)"
  by (simp add: loop_inv_def BlitzView_ctor_def world0_def)

lemma loop_inv_EnsureRenderLoop: "loop_inv s \<Longrightarrow> loop_inv (EnsureRenderLoop s)"
  by (cases s) (simp add: loop_inv_def EnsureRenderLoop_def Rendering_add_def)

lemma loop_inv_StopRenderLoop: "loop_inv s \<Longrightarrow> loop_inv (StopRenderLoop s)"
  by (cases s) (simp add: loop_inv_def StopRenderLoop_def Rendering_remove_def)

lemma loop_inv_run_loop: "loop_inv s \<Longrightarrow> loop_inv (run_loop cs s)"
  by (induction cs s rule: run_loop.induct)
     (simp_all add: loop_inv_EnsureRenderLoop loop_inv_StopRenderLoop)

lemma run_loop_append: "run_loop (cs @ ds) s = run_loop ds (run_loop cs s)"
  by (induction cs s rule: run_loop.induct) simp_all

lemma EnsureRenderLoop_twice: "EnsureRenderLoop (EnsureRenderLoop s) = EnsureRenderLoop s"
  by (cases s) (simp add: EnsureRenderLoop_def Rendering_add_def)

lemma StopRenderLoop_twice: "StopRenderLoop (StopRenderLoop s) = StopRenderLoop s"
  by (cases s) (simp add: StopRenderLoop_def)

lemma EnsureRenderLoop_one:
  "loop_inv s \<Longrightarrow> length (rendering_handlers (snd (EnsureRenderLoop s))) = 1"
  by (cases s) (simp add: loop_inv_def EnsureRenderLoop_def Rendering_add_def)

lemma StopRenderLoop_none:
  "loop_inv s \<Longrightarrow> rendering_handlers (snd (StopRenderLoop s)) = []"
  by (cases s) (simp add: loop_inv_def StopRenderLoop_def Rendering_remove_def)

text \<open>
  C4 (as the code has it). Start and stop of the render loop are idempotent. After every
  sequence \<open>cs\<close> of start and stop calls on a new control: the control has one handler on
  the frame clock, the one under \<open>m_renderingToken\<close>, when \<open>m_renderLoopAttached\<close> is set,
  and none when it is not; a second start changes nothing and leaves exactly one handler;
  a second stop changes nothing and leaves no handler. In any state \<open>s\<close> at all, a second
  start or stop in a row changes nothing. Neither function has a path that raises.
\<close>

theorem C4_render_loop_idempotent:
  "rendering_handlers (snd (run_loop cs (BlitzView_ctor, world0)))
     = (if m_renderLoopAttached (fst (run_loop cs (BlitzView_ctor, world0)))
        then [m_renderingToken (fst (run_loop cs (BlitzView_ctor, world0)))] else [])
   \<and> run_loop (cs @ [start, start]) (BlitzView_ctor, world0)
       = run_loop (cs @ [start]) (BlitzView_ctor, world0)
   \<and> length (rendering_handlers (snd (run_loop (cs @ [start, start]) (BlitzView_ctor, world0))))
       = 1
   \<and> run_loop (cs @ [stop, stop]) (BlitzView_ctor, world0)
       = run_loop (cs @ [stop]) (BlitzView_ctor, world0)
   \<and> rendering_handlers (snd (run_loop (cs @ [stop, stop]) (BlitzView_ctor, world0))) = []
   \<and> EnsureRenderLoop (EnsureRenderLoop s) = EnsureRenderLoop s
   \<and> StopRenderLoop (StopRenderLoop s) = StopRenderLoop s"
proof -
  let ?s = "run_loop cs (BlitzView_ctor, world0)"
  have inv: "loop_inv ?s"
    by (rule loop_inv_run_loop [OF loop_inv_ctor])
  obtain v w where s: "?s = (v, w)" by (cases ?s)
  from inv have a: "rendering_handlers (snd ?s)
      = (if m_renderLoopAttached (fst ?s) then [m_renderingToken (fst ?s)] else [])"
    unfolding s by (simp add: loop_inv_def)
  have b: "run_loop (cs @ [start, start]) (BlitzView_ctor, world0)
      = run_loop (cs @ [start]) (BlitzView_ctor, world0)"
    by (simp add: run_loop_append EnsureRenderLoop_twice)
  have c: "length (rendering_handlers
      (snd (run_loop (cs @ [start, start]) (BlitzView_ctor, world0)))) = 1"
    by (simp add: run_loop_append EnsureRenderLoop_twice EnsureRenderLoop_one [OF inv])
  have d: "run_loop (cs @ [stop, stop]) (BlitzView_ctor, world0)
      = run_loop (cs @ [stop]) (BlitzView_ctor, world0)"
    by (simp add: run_loop_append StopRenderLoop_twice)
  have e: "rendering_handlers
      (snd (run_loop (cs @ [stop, stop]) (BlitzView_ctor, world0))) = []"
    by (simp add: run_loop_append StopRenderLoop_twice StopRenderLoop_none [OF inv])
  from a b c d e show ?thesis
    by (intro conjI) (simp_all only: EnsureRenderLoop_twice StopRenderLoop_twice)
qed

theorem C4_witness:
  "rendering_handlers (snd (run_loop [start, start] (BlitzView_ctor, world0))) = [1]
   \<and> m_renderLoopAttached (fst (run_loop [start, start] (BlitzView_ctor, world0)))
   \<and> rendering_handlers (snd (run_loop [start, stop, stop] (BlitzView_ctor, world0))) = []
   \<and> \<not> m_renderLoopAttached (fst (run_loop [start, stop, stop] (BlitzView_ctor, world0)))"
proof -
  have s1: "run_loop [start] (BlitzView_ctor, world0)
      = (BlitzView_ctor\<lparr>m_renderingToken := 1, m_renderLoopAttached := True\<rparr>,
         world0\<lparr>rendering_handlers := [1], next_token := 2\<rparr>)"
    by (simp add: EnsureRenderLoop_def Rendering_add_def BlitzView_ctor_def world0_def)
  have ss: "run_loop [start, start] (BlitzView_ctor, world0)
      = run_loop [start] (BlitzView_ctor, world0)"
    using C4_render_loop_idempotent [of "[]", unfolded append_Nil] by blast
  have a: "rendering_handlers (snd (run_loop [start, start] (BlitzView_ctor, world0))) = [1]"
    unfolding ss s1 by simp
  have b: "m_renderLoopAttached (fst (run_loop [start, start] (BlitzView_ctor, world0)))"
    unfolding ss s1 by simp
  have c: "rendering_handlers (snd (run_loop [start, stop, stop] (BlitzView_ctor, world0))) = []"
    using C4_render_loop_idempotent [of "[start]", unfolded append_Cons append_Nil] by blast
  have "rendering_handlers (snd (run_loop [start, stop, stop] (BlitzView_ctor, world0)))
      = (if m_renderLoopAttached (fst (run_loop [start, stop, stop] (BlitzView_ctor, world0)))
         then [m_renderingToken (fst (run_loop [start, stop, stop] (BlitzView_ctor, world0)))]
         else [])"
    using C4_render_loop_idempotent [of "[start, stop, stop]"] by blast
  with c have d: "\<not> m_renderLoopAttached (fst (run_loop [start, stop, stop] (BlitzView_ctor, world0)))"
    by (simp split: if_splits)
  from a b c d show ?thesis by (intro conjI)
qed

text \<open>
  The claim as stated fails in its last clause. A token is held when its value is not 0
  (the test that \<open>clear\<close> makes in \<open>OnApplyTemplate\<close>). After one start and one stop the
  flag says Detached, yet \<open>m_renderingToken\<close> still holds the token 1 of the handler that
  was removed.
\<close>

theorem C4_counterexample:
  "\<not> m_renderLoopAttached (fst (run_loop [start, stop] (BlitzView_ctor, world0)))
   \<and> m_renderingToken (fst (run_loop [start, stop] (BlitzView_ctor, world0))) = 1
   \<and> m_renderingToken (fst (run_loop [start, stop] (BlitzView_ctor, world0))) \<noteq> 0
   \<and> rendering_handlers (snd (run_loop [start, stop] (BlitzView_ctor, world0))) = []"
  by (simp add: EnsureRenderLoop_def StopRenderLoop_def Rendering_add_def Rendering_remove_def
      BlitzView_ctor_def world0_def)

section \<open>Properties of the sizes forwarded\<close>




section \<open>Properties of the pointer handlers\<close>

lemma button_bits_bit:
  "bit (button_bits e) 0 = IsLeftButtonPressed e"
  "bit (button_bits e) 1 = IsRightButtonPressed e"
  "bit (button_bits e) (Suc 0) = IsRightButtonPressed e"
  "bit (button_bits e) 2 = IsMiddleButtonPressed e"
  "bit (button_bits e) 3 = IsXButton1Pressed e"
  "bit (button_bits e) 4 = IsXButton2Pressed e"
  "button_bits e < 32"
  by (cases "IsLeftButtonPressed e"; cases "IsRightButtonPressed e";
      cases "IsMiddleButtonPressed e"; cases "IsXButton1Pressed e";
      cases "IsXButton2Pressed e"; simp add: button_bits_def)+

lemma PanelPointerMoved_call:
  "m_host v \<noteq> None \<Longrightarrow> m_panel v \<noteq> None \<Longrightarrow>
   host_calls (PanelPointerMoved v e w) =
     host_calls w @ [PointerMove (Position_X e) (Position_Y e) (button_bits e) (KeyModifiers e)]"
  by (simp add: PanelPointerMoved_def button_bits_def Let_def)

lemma PanelPointerPressed_call:
  "m_host v \<noteq> None \<Longrightarrow> m_panel v \<noteq> None \<Longrightarrow>
   host_calls (PanelPointerPressed v e w) =
     host_calls w @ [PointerDown (Position_X e) (Position_Y e)
        (if IsRightButtonPressed e then 2 else if IsMiddleButtonPressed e then 1 else 0)
        (button_bits e) (KeyModifiers e)]"
  by (simp add: PanelPointerPressed_def button_bits_def Let_def)

lemma PanelPointerReleased_call:
  "m_host v \<noteq> None \<Longrightarrow> m_panel v \<noteq> None \<Longrightarrow>
   host_calls (PanelPointerReleased v e w) =
     host_calls w @ [PointerUp (Position_X e) (Position_Y e) 0 0 (KeyModifiers e)]"
  by (simp add: PanelPointerReleased_def Let_def)

lemma active_view_ready: "m_host active_view \<noteq> None" "m_panel active_view \<noteq> None"
  by (simp_all add: active_view_def BlitzView_ctor_def)

text \<open>What \<open>PanelPointerMoved\<close> and \<open>PanelPointerPressed\<close> forward as the mask: the sum
  of the bits of the buttons that are down, whatever button raised the event.\<close>

lemma button_mask_of_move_and_down:
  assumes "m_host v \<noteq> None" and "m_panel v \<noteq> None"
  shows "(\<exists>mask button.
            host_calls (PanelPointerMoved v e w) = host_calls w @
              [PointerMove (Position_X e) (Position_Y e) mask (KeyModifiers e)]
          \<and> host_calls (PanelPointerPressed v e w) = host_calls w @
              [PointerDown (Position_X e) (Position_Y e) button mask (KeyModifiers e)]
          \<and> mask = button_bits e
          \<and> bit mask 0 = IsLeftButtonPressed e
          \<and> bit mask 1 = IsRightButtonPressed e
          \<and> bit mask 2 = IsMiddleButtonPressed e
          \<and> bit mask 3 = IsXButton1Pressed e
          \<and> bit mask 4 = IsXButton2Pressed e
          \<and> mask < 32
          \<and> (IsLeftButtonPressed e \<and> IsRightButtonPressed e \<and> \<not> IsMiddleButtonPressed e
               \<and> \<not> IsXButton1Pressed e \<and> \<not> IsXButton2Pressed e \<longrightarrow> mask = 3))
       \<and> host_calls (PanelPointerMoved v (e\<lparr>UpdateKind := k\<rparr>) w)
           = host_calls (PanelPointerMoved v e w)
       \<and> host_calls (PanelPointerPressed v (e\<lparr>UpdateKind := k\<rparr>) w)
           = host_calls (PanelPointerPressed v e w)"
proof -
  have three: "IsLeftButtonPressed e \<and> IsRightButtonPressed e \<and> \<not> IsMiddleButtonPressed e
               \<and> \<not> IsXButton1Pressed e \<and> \<not> IsXButton2Pressed e \<longrightarrow> button_bits e = 3"
    by (simp add: button_bits_def)
  have kind: "button_bits (e\<lparr>UpdateKind := k\<rparr>) = button_bits e"
    by (simp add: button_bits_def)
  show ?thesis
    using assms three
    by (simp add: PanelPointerMoved_call PanelPointerPressed_call button_bits_bit kind)
qed

text \<open>What \<open>PanelPointerReleased\<close> forwards as the mask is the constant 0. It is the sum
  of the bits of the buttons that are down exactly when no button is down any more.\<close>

lemma button_mask_of_up:
  assumes "m_host v \<noteq> None" and "m_panel v \<noteq> None"
  shows "host_calls (PanelPointerReleased v e w) = host_calls w @
           [PointerUp (Position_X e) (Position_Y e) 0 0 (KeyModifiers e)]
       \<and> ((0 :: uint32_t) = button_bits e \<longleftrightarrow>
            \<not> IsLeftButtonPressed e \<and> \<not> IsRightButtonPressed e \<and> \<not> IsMiddleButtonPressed e
            \<and> \<not> IsXButton1Pressed e \<and> \<not> IsXButton2Pressed e)"
proof -
  have "((0 :: uint32_t) = button_bits e) =
      (\<not> IsLeftButtonPressed e \<and> \<not> IsRightButtonPressed e \<and> \<not> IsMiddleButtonPressed e
       \<and> \<not> IsXButton1Pressed e \<and> \<not> IsXButton2Pressed e)"
    by (cases "IsLeftButtonPressed e"; cases "IsRightButtonPressed e";
        cases "IsMiddleButtonPressed e"; cases "IsXButton1Pressed e";
        cases "IsXButton2Pressed e"; simp add: button_bits_def)
  with assms show ?thesis by (simp add: PanelPointerReleased_call)
qed

text \<open>
  C6. The claim asks of every pointer event that the mask forwarded carries the bit of
  each button that is down. \<open>PanelPointerMoved\<close> and \<open>PanelPointerPressed\<close> do that
  (\<open>button_mask_of_move_and_down\<close>); \<open>PanelPointerReleased\<close> does not: it passes the
  constant 0 (\<open>button_mask_of_up\<close>). On a control with host and panel, the release of
  the right button while the left button is still down is forwarded as
  \<open>PointerUp(10, 20, 0, 0, 0)\<close>: the mask is 0, with bit 0 clear, although the left button
  is pressed and the mask the claim asks for is 1. With the same buttons down, a move is
  forwarded with the mask 1.
\<close>

theorem C6_release_forwards_mask_0:
  "m_host active_view = Some 1 \<and> m_panel active_view = Some 7
   \<and> IsLeftButtonPressed right_released_left_held
   \<and> UpdateKind right_released_left_held = RightButtonReleased
   \<and> host_calls (PanelPointerReleased active_view right_released_left_held world0)
       = [PointerUp 10 20 0 0 0]
   \<and> \<not> bit (0 :: uint32_t) 0
   \<and> button_bits right_released_left_held = 1
   \<and> bit (button_bits right_released_left_held) 0
   \<and> host_calls (PanelPointerMoved active_view moved_left_held world0)
       = [PointerMove 10 20 1 0]"
  by (simp add: PanelPointerReleased_def PanelPointerMoved_def active_view_def
      BlitzView_ctor_def world0_def right_released_left_held_def moved_left_held_def
      event0_def button_bits_def)




section \<open>Properties of the wheel handler\<close>

lemma shift_bit:
  "(m AND VirtualKeyModifiers_Shift = VirtualKeyModifiers_Shift) = bit (m :: uint32_t) 2"
proof -
  have four: "(4 :: uint32_t) = 2 ^ 2" by simp
  have b4: "bit ((2 :: uint32_t) ^ 2) n = (n = 2)" for n
    by (simp only: bit_exp_iff) auto
  have "(m AND 2 ^ 2 = 2 ^ 2) = bit m 2"
  proof
    assume a: "m AND 2 ^ 2 = 2 ^ 2"
    have "bit (m AND 2 ^ 2) 2" unfolding a b4 by (rule refl)
    then show "bit m 2" by (simp only: bit_and_iff)
  next
    assume m2: "bit m 2"
    show "m AND 2 ^ 2 = 2 ^ 2"
    proof (rule bit_eqI)
      fix n
      show "bit (m AND 2 ^ 2) n = bit ((2 :: uint32_t) ^ 2) n"
        unfolding bit_and_iff b4 using m2 by auto
    qed
  qed
  then show ?thesis unfolding VirtualKeyModifiers_Shift_def four .
qed

text \<open>\<open>ilog2\<close> is the binary exponent: the integer part of the logarithm to base 2.\<close>

lemma ilog2_bounds:
  assumes "0 < a"
  shows "pow2 (ilog2 a) \<le> a \<and> a < pow2 (ilog2 a + 1)"
proof (cases "1 \<le> a")
  case True
  define n where "n = \<lfloor>a\<rfloor>"
  from True have n1: "1 \<le> n" by (simp add: n_def)
  then have n0: "0 < n" by simp
  from bitlen_bounds [OF n0]
  have lo: "2 ^ nat (bitlen n - 1) \<le> n" and hi: "n < 2 ^ nat (bitlen n)" by simp_all
  have b1: "1 \<le> bitlen n"
  proof (rule ccontr)
    assume "\<not> 1 \<le> bitlen n"
    then have "nat (bitlen n) = 0" by simp
    with hi n0 show False by simp
  qed
  have "(of_int (2 ^ nat (bitlen n - 1)) :: rat) \<le> of_int n"
    using lo by (simp only: of_int_le_iff)
  also have "\<dots> \<le> a" by (simp add: n_def)
  finally have l: "pow2 (bitlen n - 1) \<le> a"
    using b1 by (simp add: pow2_def)
  have "n + 1 \<le> 2 ^ nat (bitlen n)" using hi by simp
  then have "(of_int (n + 1) :: rat) \<le> of_int (2 ^ nat (bitlen n))"
    by (simp only: of_int_le_iff)
  moreover have "a < of_int (n + 1)" using floor_correct [of a] by (simp add: n_def)
  ultimately have h: "a < pow2 (bitlen n)"
    using b1 by (simp add: pow2_def)
  from l h True show ?thesis by (simp add: ilog2_def n_def)
next
  case False
  define m where "m = \<lceil>1 / a\<rceil> - 1"
  from False assms have "1 < 1 / a" by simp
  then have "2 \<le> \<lceil>1 / a\<rceil>" by (simp add: less_ceiling_iff [where z = 1, simplified])
  then have m0: "0 < m" by (simp add: m_def)
  from bitlen_bounds [OF m0]
  have lo: "2 ^ nat (bitlen m - 1) \<le> m" and hi: "m < 2 ^ nat (bitlen m)" by simp_all
  have b1: "1 \<le> bitlen m"
  proof (rule ccontr)
    assume "\<not> 1 \<le> bitlen m"
    then have "nat (bitlen m) = 0" by simp
    with hi m0 show False by simp
  qed
  have c: "of_int \<lceil>1 / a\<rceil> - 1 < 1 / a" "1 / a \<le> of_int \<lceil>1 / a\<rceil>"
    using ceiling_correct [of "1 / a"] by simp_all
  have "m + 1 \<le> 2 ^ nat (bitlen m)" using hi by simp
  then have "(of_int (m + 1) :: rat) \<le> of_int (2 ^ nat (bitlen m))"
    by (simp only: of_int_le_iff)
  moreover have "1 / a \<le> of_int (m + 1)" using c(2) by (simp add: m_def)
  ultimately have "1 / a \<le> 2 ^ nat (bitlen m)" by simp
  then have l: "1 / 2 ^ nat (bitlen m) \<le> a"
    using assms by (simp add: field_simps)
  have "(of_int (2 ^ nat (bitlen m - 1)) :: rat) \<le> of_int m"
    using lo by (simp only: of_int_le_iff)
  then have "(2 :: rat) ^ nat (bitlen m - 1) \<le> of_int m"
    by (simp only: of_int_power of_int_numeral)
  moreover have "(of_int m :: rat) < 1 / a" using c(1) by (simp add: m_def)
  ultimately have "2 ^ nat (bitlen m - 1) < 1 / a" by (rule le_less_trans)
  then have h: "a < 1 / 2 ^ nat (bitlen m - 1)"
    using assms by (simp add: field_simps)
  have p1: "pow2 (- bitlen m) = 1 / 2 ^ nat (bitlen m)"
    using b1 by (simp add: pow2_def)
  have p2: "pow2 (1 - bitlen m) = 1 / 2 ^ nat (bitlen m - 1)"
  proof (cases "bitlen m = 1")
    case True
    then show ?thesis by (simp add: pow2_def)
  next
    case False
    with b1 have "\<not> 0 \<le> 1 - bitlen m" by simp
    moreover have "- (1 - bitlen m) = bitlen m - 1" by simp
    ultimately show ?thesis by (simp add: pow2_def)
  qed
  from l h False show ?thesis by (simp add: ilog2_def m_def [symmetric] p1 p2)
qed

text \<open>\<open>round_half_even\<close> is within one half of its argument.\<close>

lemma round_half_even_near: "\<bar>of_int (round_half_even a) - a\<bar> \<le> 1 / 2"
proof -
  define f where "f = \<lfloor>a\<rfloor>"
  have lo: "of_int f \<le> a" and hi: "a < of_int f + 1"
    using floor_correct [of a] by (simp_all add: f_def)
  show ?thesis
    using lo hi unfolding round_half_even_def Let_def f_def [symmetric]
    by (auto simp: abs_if)
qed

lemma round_half_even_of_int: "round_half_even (of_int m) = m"
  by (simp add: round_half_even_def)

text \<open>Rounding to \<open>p\<close> bits keeps an integer of fewer than \<open>p\<close> bits.\<close>

lemma round_binary_of_int:
  assumes "\<bar>n\<bar> < 2 ^ p"
  shows "round_binary p (of_int n) = of_int n"
proof (cases "n = 0")
  case True
  then show ?thesis by (simp add: round_binary_def)
next
  case False
  let ?a = "\<bar>n\<bar>"
  have "1 \<le> ?a" using False by simp
  then have "(of_int 1 :: rat) \<le> of_int ?a" by (simp only: of_int_le_iff)
  then have a1: "(1::rat) \<le> \<bar>of_int n\<bar>" by simp
  have il: "ilog2 \<bar>of_int n :: rat\<bar> = bitlen ?a - 1"
    using a1 by (simp add: ilog2_def flip: of_int_abs)
  from assms have le: "bitlen ?a \<le> int p"
    by (simp add: bitlen_le_iff_power)
  define k where "k = nat (int p - bitlen ?a)"
  have ulp: "pow2 (ilog2 \<bar>of_int n :: rat\<bar> - (int p - 1)) = 1 / 2 ^ k"
  proof (cases "bitlen ?a = int p")
    case True
    then show ?thesis by (simp add: il pow2_def k_def)
  next
    case ne: False
    with le have "bitlen ?a - 1 - (int p - 1) < 0" by simp
    moreover have "- (bitlen ?a - 1 - (int p - 1)) = int p - bitlen ?a" by simp
    ultimately show ?thesis by (simp add: il pow2_def k_def)
  qed
  have q: "\<bar>of_int n :: rat\<bar> / (1 / 2 ^ k) = of_int (?a * 2 ^ k)"
    by simp
  have "round_binary p (of_int n) = sgn (of_int n) * of_int (?a * 2 ^ k) * (1 / 2 ^ k)"
    using False unfolding round_binary_def Let_def ulp q round_half_even_of_int by simp
  also have "\<dots> = sgn (of_int n) * \<bar>of_int n :: rat\<bar>" by simp
  also have "\<dots> = of_int n" by (simp add: sgn_mult_abs)
  finally show ?thesis .
qed

text \<open>For a delta of whole notches the scroll amount is exact: 48 for each notch.\<close>

lemma scroll_amount_whole_notches:
  assumes "sint d = 120 * k"
  shows "scroll_amount d = of_int (48 * k)"
proof -
  have "- (2 ^ 31) \<le> sint d" "sint d < 2 ^ 31"
    using sint_ge [of d] sint_lt [of d] by simp_all
  with assms have k: "\<bar>k\<bar> < 2 ^ 53" "\<bar>k * 48\<bar> < 2 ^ 53" by simp_all
  have "double_div (double_of_int32 d) 120 = of_int k"
    using assms round_binary_of_int [OF k(1)] by (simp add: double_div_def double_of_int32_def)
  moreover have "double_mul (of_int k) 1 = of_int k"
    using round_binary_of_int [OF k(1)] by (simp add: double_mul_def)
  moreover have "double_mul (of_int k) 48 = of_int (k * 48)"
    using round_binary_of_int [OF k(2)] by (simp add: double_mul_def)
  ultimately show ?thesis by (simp add: scroll_amount_def mult.commute)
qed

text \<open>
  C2. For every wheel event that is forwarded (the control has a host and a panel), with
  raw delta \<open>d\<close>: the amount is (d / 120) * 1 * 48 computed in \<open>double\<close>; without Shift
  (bit 2 of the key modifiers) it is passed as the vertical scroll with horizontal 0, with
  Shift as the horizontal scroll with vertical 0, and the event is marked handled. The
  amount is 48 for \<open>d = 120\<close>, and 48 for each notch when \<open>d\<close> is a whole number of notches.
\<close>

theorem C2_wheel_scroll:
  assumes "m_host v \<noteq> None" and "m_panel v \<noteq> None"
  shows "(\<not> bit (KeyModifiers e) 2 \<longrightarrow>
            PanelPointerWheelChanged v e w =
              (w\<lparr>host_calls := host_calls w @
                   [WheelScroll 0 (scroll_amount (MouseWheelDelta e))]\<rparr>, True))
       \<and> (bit (KeyModifiers e) 2 \<longrightarrow>
            PanelPointerWheelChanged v e w =
              (w\<lparr>host_calls := host_calls w @
                   [WheelScroll (scroll_amount (MouseWheelDelta e)) 0]\<rparr>, True))
       \<and> scroll_amount (MouseWheelDelta e)
           = double_mul (double_mul (double_div (double_of_int32 (MouseWheelDelta e)) 120) 1) 48
       \<and> scroll_amount 120 = 48
       \<and> (\<forall>k. sint (MouseWheelDelta e) = 120 * k \<longrightarrow>
            scroll_amount (MouseWheelDelta e) = of_int (48 * k))"
proof -
  have n: "scroll_amount 120 = 48"
    using scroll_amount_whole_notches [of 120 1] by simp
  show ?thesis
    using assms n
    by (simp add: PanelPointerWheelChanged_def Let_def shift_bit scroll_amount_def
        scroll_amount_whole_notches [unfolded scroll_amount_def])
qed

theorem C2_witness:
  "m_host active_view \<noteq> None \<and> m_panel active_view \<noteq> None
   \<and> MouseWheelDelta wheel_notch = 120 \<and> \<not> bit (KeyModifiers wheel_notch) 2
   \<and> MouseWheelDelta shift_wheel_notch = 120 \<and> bit (KeyModifiers shift_wheel_notch) 2
   \<and> host_calls (fst (PanelPointerWheelChanged active_view wheel_notch world0))
       = [WheelScroll 0 48]
   \<and> host_calls (fst (PanelPointerWheelChanged active_view shift_wheel_notch world0))
       = [WheelScroll 48 0]"
proof -
  have d: "MouseWheelDelta wheel_notch = 120" "MouseWheelDelta shift_wheel_notch = 120"
    by (simp_all add: wheel_notch_def shift_wheel_notch_def event0_def)
  have k: "\<not> bit (KeyModifiers wheel_notch) 2" "bit (KeyModifiers shift_wheel_notch) 2"
    by (simp_all add: wheel_notch_def shift_wheel_notch_def event0_def)
  from C2_wheel_scroll [OF active_view_ready, where e = wheel_notch and w = world0] k(1)
  have a: "host_calls (fst (PanelPointerWheelChanged active_view wheel_notch world0))
       = [WheelScroll 0 48]"
    by (simp add: d world0_def)
  from C2_wheel_scroll [OF active_view_ready, where e = shift_wheel_notch and w = world0] k(2)
  have b: "host_calls (fst (PanelPointerWheelChanged active_view shift_wheel_notch world0))
       = [WheelScroll 48 0]"
    by (simp add: d world0_def)
  from a b d k active_view_ready show ?thesis by simp
qed

section \<open>Properties of template application\<close>

lemma OnApplyTemplate_phases:
  "OnApplyTemplate env s = subscribe_all (InitializeHostIfReady env (unsubscribe_all s))"
  unfolding OnApplyTemplate_def unsubscribe_all_def subscribe_all_def Let_def split_def
  by (rule refl)

text \<open>\<open>InitializeHostIfReady\<close> leaves the panels' handlers and the six tokens alone.\<close>

lemma InitializeHostIfReady_frame:
  "InitializeHostIfReady env (v, w) = (v', w') \<Longrightarrow>
     panel_handlers w' = panel_handlers w \<and> panel_log w' = panel_log w
     \<and> next_token w \<le> next_token w'
     \<and> m_loadedToken v' = m_loadedToken v \<and> m_sizeChangedToken v' = m_sizeChangedToken v
     \<and> m_pointerMovedToken v' = m_pointerMovedToken v
     \<and> m_pointerPressedToken v' = m_pointerPressedToken v
     \<and> m_pointerReleasedToken v' = m_pointerReleasedToken v
     \<and> m_pointerWheelChangedToken v' = m_pointerWheelChangedToken v"
  by (auto simp: InitializeHostIfReady_def EnsureRenderLoop_def Rendering_add_def Let_def
      split: option.splits IInspectable.splits if_splits prod.splits)

lemma wired_ctor: "wired (BlitzView_ctor, world0)"
  by (simp add: wired_def subscribed_def BlitzView_ctor_def world0_def)

lemma unsubscribe_all_wired:
  assumes "wired (v, w)" and "m_panel v = Some p"
  shows "unsubscribe_all (v, w) =
    (v\<lparr>m_loadedToken := 0, m_sizeChangedToken := 0, m_pointerMovedToken := 0,
       m_pointerPressedToken := 0, m_pointerReleasedToken := 0,
       m_pointerWheelChangedToken := 0, m_panel := None\<rparr>,
     w\<lparr>panel_handlers := [],
       panel_log := panel_log w @
         [Removed p Loaded (m_loadedToken v), Removed p SizeChanged (m_sizeChangedToken v),
          Removed p PointerMoved (m_pointerMovedToken v),
          Removed p PointerPressed (m_pointerPressedToken v),
          Removed p PointerReleased (m_pointerReleasedToken v),
          Removed p PointerWheelChanged (m_pointerWheelChangedToken v)]\<rparr>)"
proof -
  from assms have h: "panel_handlers w =
      [(p, Loaded, m_loadedToken v), (p, SizeChanged, m_sizeChangedToken v),
       (p, PointerMoved, m_pointerMovedToken v), (p, PointerPressed, m_pointerPressedToken v),
       (p, PointerReleased, m_pointerReleasedToken v),
       (p, PointerWheelChanged, m_pointerWheelChangedToken v)]"
    by (simp add: wired_def subscribed_def)
  from assms(1)
  have "list_all (\<lambda>(p, k, t). t \<noteq> 0 \<and> t < next_token w) (panel_handlers w)"
    by (auto simp: wired_def)
  with h have nz: "m_loadedToken v \<noteq> 0" "m_sizeChangedToken v \<noteq> 0"
      "m_pointerMovedToken v \<noteq> 0" "m_pointerPressedToken v \<noteq> 0"
      "m_pointerReleasedToken v \<noteq> 0" "m_pointerWheelChangedToken v \<noteq> 0"
    by simp_all
  show ?thesis
    using assms(2) h nz
    by (simp add: unsubscribe_all_def clear_def remove_handler_def Let_def)
qed

lemma subscribe_all_None: "m_panel v = None \<Longrightarrow> subscribe_all (v, w) = (v, w)"
  by (simp add: subscribe_all_def)

lemma subscribe_all_Some:
  assumes "m_panel v = Some p"
  shows "subscribe_all (v, w) =
    (v\<lparr>m_loadedToken := next_token w, m_sizeChangedToken := next_token w + 1,
       m_pointerMovedToken := next_token w + 2, m_pointerPressedToken := next_token w + 3,
       m_pointerReleasedToken := next_token w + 4,
       m_pointerWheelChangedToken := next_token w + 5\<rparr>,
     w\<lparr>panel_handlers := panel_handlers w @
         [(p, Loaded, next_token w), (p, SizeChanged, next_token w + 1),
          (p, PointerMoved, next_token w + 2), (p, PointerPressed, next_token w + 3),
          (p, PointerReleased, next_token w + 4), (p, PointerWheelChanged, next_token w + 5)],
       next_token := next_token w + 6,
       panel_log := panel_log w @
         [Added p Loaded (next_token w), Added p SizeChanged (next_token w + 1),
          Added p PointerMoved (next_token w + 2), Added p PointerPressed (next_token w + 3),
          Added p PointerReleased (next_token w + 4),
          Added p PointerWheelChanged (next_token w + 5)]\<rparr>)"
  using assms
  by (simp add: subscribe_all_def add_handler_def Let_def)

lemma subscribe_all_log:
  "\<exists>adds. panel_log (snd (subscribe_all (v, w))) = panel_log w @ adds \<and> list_all is_Added adds"
proof (cases "m_panel v")
  case None
  then show ?thesis by (simp add: subscribe_all_None)
next
  case (Some q)
  then show ?thesis by (simp add: subscribe_all_Some)
qed

lemma wired_OnApplyTemplate:
  assumes "wired s"
  shows "wired (OnApplyTemplate env s)"
proof -
  obtain v w where s: "s = (v, w)" by (cases s)
  obtain v1 w1 where u: "unsubscribe_all (v, w) = (v1, w1)" by (cases "unsubscribe_all (v, w)")
  have u1: "panel_handlers w1 = [] \<and> m_panel v1 = None \<and> 0 < next_token w1"
  proof (cases "m_panel v")
    case None
    with assms s u show ?thesis
      by (auto simp: unsubscribe_all_def wired_def subscribed_def)
  next
    case (Some p)
    from unsubscribe_all_wired [OF assms [unfolded s] Some] u assms s show ?thesis
      by (auto simp: wired_def)
  qed
  obtain v2 w2 where i: "InitializeHostIfReady env (v1, w1) = (v2, w2)"
    by (cases "InitializeHostIfReady env (v1, w1)")
  from InitializeHostIfReady_frame [OF i] u1
  have i1: "panel_handlers w2 = []" "0 < next_token w2" by auto
  have "wired (subscribe_all (v2, w2))"
  proof (cases "m_panel v2")
    case None
    with i1 show ?thesis by (simp add: subscribe_all_None wired_def subscribed_def)
  next
    case (Some q)
    with i1 show ?thesis by (simp add: subscribe_all_Some wired_def subscribed_def)
  qed
  with s u i show ?thesis by (simp add: OnApplyTemplate_phases)
qed

lemma wired_frame:
  assumes "wired (v, w)" and ph: "panel_handlers w' = panel_handlers w"
    and nt: "next_token w \<le> next_token w'" and sub: "subscribed v' = subscribed v"
  shows "wired (v', w')"
proof -
  from assms(1) have a0: "panel_handlers w = subscribed v
      \<and> list_all (\<lambda>(p, k, t). t \<noteq> 0 \<and> t < next_token w) (panel_handlers w)
      \<and> 0 < next_token w"
    unfolding wired_def prod.case .
  note a = a0 [THEN conjunct1] a0 [THEN conjunct2, THEN conjunct1]
    a0 [THEN conjunct2, THEN conjunct2]
  from a(2) nt have l: "list_all (\<lambda>(p, k, t). t \<noteq> 0 \<and> t < next_token w') (panel_handlers w)"
    by (auto simp: list_all_iff)
  have "panel_handlers w' = subscribed v'" using a(1) ph sub by simp
  moreover have "list_all (\<lambda>(p, k, t). t \<noteq> 0 \<and> t < next_token w') (panel_handlers w')"
    using l ph by simp
  moreover have "0 < next_token w'" using a(3) nt by simp
  ultimately show ?thesis unfolding wired_def prod.case by (intro conjI)
qed

lemma wired_InitializeHostIfReady:
  assumes "wired (v, w)" and "m_panel v \<noteq> None"
  shows "wired (InitializeHostIfReady env (v, w))"
proof -
  obtain v' w' where i: "InitializeHostIfReady env (v, w) = (v', w')"
    by (cases "InitializeHostIfReady env (v, w)")
  have p: "m_panel v' = m_panel v"
    using i assms(2)
    by (auto simp: InitializeHostIfReady_def EnsureRenderLoop_def Rendering_add_def Let_def
        split: option.splits IInspectable.splits if_splits prod.splits)
  from InitializeHostIfReady_frame [OF i] p have sub: "subscribed v' = subscribed v"
    by (auto simp: subscribed_def split: option.splits)
  from InitializeHostIfReady_frame [OF i]
  have ph: "panel_handlers w' = panel_handlers w" and nt: "next_token w \<le> next_token w'"
    by simp_all
  show ?thesis unfolding i by (rule wired_frame [OF assms(1) ph nt sub])
qed

lemma wired_host_calls: "wired (v, w) \<Longrightarrow> wired (v, w\<lparr>host_calls := cs\<rparr>)"
  by (erule wired_frame) simp_all

lemma wired_dispatch: "wired s \<Longrightarrow> wired (dispatch ev s)"
proof (cases s)
  case (Pair v w)
  assume ws: "wired s"
  show ?thesis
  proof (cases ev)
    case (TemplateApplied env)
    with ws show ?thesis by (simp add: wired_OnApplyTemplate)
  next
    case (PanelLoaded env)
    show ?thesis
    proof (cases "handlers_for Loaded w = []")
      case True
      with ws Pair PanelLoaded show ?thesis by simp
    next
      case False
      with ws Pair have "m_panel v \<noteq> None"
        by (cases "m_panel v") (auto simp: wired_def subscribed_def handlers_for_def)
      with ws Pair PanelLoaded False show ?thesis
        by (simp add: OnPanelLoaded_def wired_InitializeHostIfReady)
    qed
  next
    case (PanelSizeChanged env)
    with ws Pair show ?thesis
      by (simp add: OnPanelSizeChanged_def ForwardResize_def Let_def wired_host_calls)
  next
    case (PointerMovedEvent e)
    with ws Pair show ?thesis
      by (simp add: PanelPointerMoved_def Let_def wired_host_calls)
  next
    case (PointerPressedEvent e)
    with ws Pair show ?thesis
      by (simp add: PanelPointerPressed_def Let_def wired_host_calls)
  next
    case (PointerReleasedEvent e)
    with ws Pair show ?thesis
      by (simp add: PanelPointerReleased_def Let_def wired_host_calls)
  next
    case (PointerWheelEvent e)
    with ws Pair show ?thesis
      by (simp add: PanelPointerWheelChanged_def Let_def split_def wired_host_calls)
  next
    case FrameTick
    with ws Pair show ?thesis
      by (simp add: OnRendering_def wired_host_calls)
  qed
qed

lemma wired_run: "wired s \<Longrightarrow> wired (run evs s)"
  by (induction evs arbitrary: s) (simp_all add: wired_dispatch)

lemma wired_at_most_once: "wired (v, w) \<Longrightarrow> length (handlers_for k w) \<le> 1"
  by (cases k) (auto simp: wired_def subscribed_def handlers_for_def split: option.splits)

lemma OnApplyTemplate_log:
  assumes "wired (v, w)" and "m_panel v = Some p"
  shows "\<exists>adds. panel_log (snd (OnApplyTemplate env (v, w))) = panel_log w @
            [Removed p Loaded (m_loadedToken v), Removed p SizeChanged (m_sizeChangedToken v),
             Removed p PointerMoved (m_pointerMovedToken v),
             Removed p PointerPressed (m_pointerPressedToken v),
             Removed p PointerReleased (m_pointerReleasedToken v),
             Removed p PointerWheelChanged (m_pointerWheelChangedToken v)] @ adds
          \<and> list_all is_Added adds"
proof -
  obtain v1 w1 where u: "unsubscribe_all (v, w) = (v1, w1)" by (cases "unsubscribe_all (v, w)")
  from unsubscribe_all_wired [OF assms] u
  have u1: "panel_log w1 = panel_log w @
            [Removed p Loaded (m_loadedToken v), Removed p SizeChanged (m_sizeChangedToken v),
             Removed p PointerMoved (m_pointerMovedToken v),
             Removed p PointerPressed (m_pointerPressedToken v),
             Removed p PointerReleased (m_pointerReleasedToken v),
             Removed p PointerWheelChanged (m_pointerWheelChangedToken v)]"
    by auto
  obtain v2 w2 where i: "InitializeHostIfReady env (v1, w1) = (v2, w2)"
    by (cases "InitializeHostIfReady env (v1, w1)")
  from InitializeHostIfReady_frame [OF i] have i1: "panel_log w2 = panel_log w1" by simp
  from subscribe_all_log [of v2 w2] u i show ?thesis
    by (simp add: OnApplyTemplate_phases i1 u1)
qed

lemma OnApplyTemplate_old_handlers_gone:
  assumes "wired (v, w)" and "x \<in> set (panel_handlers w)"
  shows "x \<notin> set (panel_handlers (snd (OnApplyTemplate env (v, w))))"
proof -
  obtain v1 w1 where u: "unsubscribe_all (v, w) = (v1, w1)" by (cases "unsubscribe_all (v, w)")
  have u1: "panel_handlers w1 = [] \<and> next_token w1 = next_token w"
  proof (cases "m_panel v")
    case None
    with assms u show ?thesis by (auto simp: unsubscribe_all_def wired_def subscribed_def)
  next
    case (Some p)
    from unsubscribe_all_wired [OF assms(1) Some] u show ?thesis by auto
  qed
  obtain v2 w2 where i: "InitializeHostIfReady env (v1, w1) = (v2, w2)"
    by (cases "InitializeHostIfReady env (v1, w1)")
  from InitializeHostIfReady_frame [OF i] u1
  have i1: "panel_handlers w2 = []" "next_token w \<le> next_token w2" by auto
  obtain q k t where x: "x = (q, k, t)" by (cases x)
  from assms x have t: "t < next_token w" by (auto simp: wired_def list_all_iff)
  have "x \<notin> set (panel_handlers (snd (subscribe_all (v2, w2))))"
  proof (cases "m_panel v2")
    case None
    with i1 show ?thesis by (simp add: subscribe_all_None)
  next
    case (Some q')
    with i1 t x show ?thesis by (auto simp: subscribe_all_Some)
  qed
  with u i show ?thesis by (simp add: OnApplyTemplate_phases)
qed

lemma OnApplyTemplate_unset_tokens:
  assumes "m_loadedToken v = 0" "m_sizeChangedToken v = 0" "m_pointerMovedToken v = 0"
    "m_pointerPressedToken v = 0" "m_pointerReleasedToken v = 0" "m_pointerWheelChangedToken v = 0"
  shows "\<exists>adds. panel_log (snd (OnApplyTemplate env (v, w))) = panel_log w @ adds
          \<and> list_all is_Added adds"
proof -
  have u: "unsubscribe_all (v, w) = (v\<lparr>m_panel := None\<rparr>, w)"
    using assms by (cases v) (simp add: unsubscribe_all_def clear_def split: option.splits)
  obtain v2 w2 where i: "InitializeHostIfReady env (v\<lparr>m_panel := None\<rparr>, w) = (v2, w2)"
    by (cases "InitializeHostIfReady env (v\<lparr>m_panel := None\<rparr>, w)")
  from InitializeHostIfReady_frame [OF i] have i1: "panel_log w2 = panel_log w" by simp
  from subscribe_all_log [of v2 w2] u i show ?thesis
    by (simp add: OnApplyTemplate_phases i1)
qed

lemma wired_bound: "wired (bound_view, bound_world)"
  by (simp add: wired_def subscribed_def bound_view_def bound_world_def)

lemma first_application:
  "OnApplyTemplate env_0x0 (BlitzView_ctor, world0) = (bound_view, bound_world)"
proof -
  have sc: "float_of_double (3 / 2) = 3 / 2"
    unfolding float_of_double_def by code_simp
  have u: "unsubscribe_all (BlitzView_ctor, world0) = (BlitzView_ctor, world0)"
    by (simp add: unsubscribe_all_def BlitzView_ctor_def)
  have i: "InitializeHostIfReady env_0x0 (BlitzView_ctor, world0)
      = (BlitzView_ctor\<lparr>m_panel := Some 7,
           m_attacher := Some \<lparr>Attacher.m_panel = Some 7, m_lastSwapchainPtr = 0\<rparr>,
           m_host := Some 1, m_renderingToken := 1, m_renderLoopAttached := True\<rparr>,
         world0\<lparr>host_calls :=
             [Host_ctor \<lparr>Attacher.m_panel = Some 7, m_lastSwapchainPtr = 0\<rparr> 1 1 (3 / 2)
                initialHtml],
           rendering_handlers := [1], next_token := 2\<rparr>)"
    by (simp add: InitializeHostIfReady_def Attacher_ctor_def EnsureRenderLoop_def
        Rendering_add_def Let_def env_0x0_def BlitzView_ctor_def world0_def
        uint32_of_double_def sc)
  show ?thesis
    unfolding OnApplyTemplate_phases u i
    by (simp add: subscribe_all_def add_handler_def Let_def BlitzView_ctor_def world0_def
        bound_view_def bound_world_def)
qed

text \<open>
  C8. Let the control be in any state \<open>(v, w)\<close> that a sequence \<open>evs\<close> of calls by the
  framework leads to from construction, and let it hold a panel \<open>p\<close>. A template
  application then removes the six handlers registered before (Loaded, SizeChanged,
  PointerMoved, PointerPressed, PointerReleased, PointerWheelChanged) from \<open>p\<close>, in this
  order, before any handler is added: the calls recorded are the six removals followed by
  additions only, and none of the handlers registered before is registered afterwards. In
  every state reached, and after two template applications on a new control in
  particular, each of the six callbacks is registered at most once. When the six tokens
  are 0 there is nothing to remove: the application records no removal and goes on to
  the additions.
\<close>

theorem C8_template_reapplication:
  assumes "run evs (BlitzView_ctor, world0) = (v, w)" and "m_panel v = Some p"
  shows "(\<exists>adds. panel_log (snd (OnApplyTemplate env (v, w))) = panel_log w @
            [Removed p Loaded (m_loadedToken v), Removed p SizeChanged (m_sizeChangedToken v),
             Removed p PointerMoved (m_pointerMovedToken v),
             Removed p PointerPressed (m_pointerPressedToken v),
             Removed p PointerReleased (m_pointerReleasedToken v),
             Removed p PointerWheelChanged (m_pointerWheelChangedToken v)] @ adds
          \<and> list_all is_Added adds)
      \<and> (\<forall>x \<in> set (panel_handlers w).
            x \<notin> set (panel_handlers (snd (OnApplyTemplate env (v, w)))))
      \<and> (\<forall>k. length (handlers_for k w) \<le> 1)
      \<and> (\<forall>k. length (handlers_for k (snd (OnApplyTemplate env (v, w)))) \<le> 1)
      \<and> (\<forall>k. length (handlers_for k
              (snd (OnApplyTemplate env2 (OnApplyTemplate env1 (BlitzView_ctor, world0))))) \<le> 1)
      \<and> (m_loadedToken v0 = 0 \<and> m_sizeChangedToken v0 = 0 \<and> m_pointerMovedToken v0 = 0
           \<and> m_pointerPressedToken v0 = 0 \<and> m_pointerReleasedToken v0 = 0
           \<and> m_pointerWheelChangedToken v0 = 0 \<longrightarrow>
         (\<exists>adds. panel_log (snd (OnApplyTemplate env (v0, w0))) = panel_log w0 @ adds
            \<and> list_all is_Added adds))"
proof -
  have once: "wired s \<Longrightarrow> length (handlers_for k (snd s)) \<le> 1" for s k
    using wired_at_most_once [of "fst s" "snd s" k] by simp
  have reach: "wired (run es (BlitzView_ctor, world0))" for es
    by (rule wired_run [OF wired_ctor])
  from reach [of evs] assms(1) have wd: "wired (v, w)" by simp
  have two: "length (handlers_for k
      (snd (OnApplyTemplate env2 (OnApplyTemplate env1 (BlitzView_ctor, world0))))) \<le> 1" for k
    using once [OF reach [of "[TemplateApplied env1, TemplateApplied env2]"], of k] by simp
  show ?thesis
    using OnApplyTemplate_log [OF wd assms(2), of env]
      OnApplyTemplate_old_handlers_gone [OF wd, of _ env]
      once [OF wd] once [OF wired_OnApplyTemplate [OF wd, of env]] two
      OnApplyTemplate_unset_tokens [of v0 env w0]
    by (simp del: append.simps)
qed

theorem C8_witness:
  "run [TemplateApplied env_0x0] (BlitzView_ctor, world0) = (bound_view, bound_world)
   \<and> m_panel bound_view = Some 7
   \<and> panel_handlers bound_world =
       [(7, Loaded, 2), (7, SizeChanged, 3), (7, PointerMoved, 4), (7, PointerPressed, 5),
        (7, PointerReleased, 6), (7, PointerWheelChanged, 7)]
   \<and> panel_handlers (snd (OnApplyTemplate env_800x600 (bound_view, bound_world))) =
       [(8, Loaded, 8), (8, SizeChanged, 9), (8, PointerMoved, 10), (8, PointerPressed, 11),
        (8, PointerReleased, 12), (8, PointerWheelChanged, 13)]
   \<and> (\<exists>adds. panel_log (snd (OnApplyTemplate env_800x600 (bound_view, bound_world))) =
         panel_log bound_world @
           [Removed 7 Loaded 2, Removed 7 SizeChanged 3, Removed 7 PointerMoved 4,
            Removed 7 PointerPressed 5, Removed 7 PointerReleased 6,
            Removed 7 PointerWheelChanged 7] @ adds
         \<and> list_all is_Added adds)
   \<and> (7, Loaded, 2) \<notin> set (panel_handlers (snd (OnApplyTemplate env_800x600 (bound_view, bound_world))))
   \<and> length (handlers_for PointerMoved
        (snd (OnApplyTemplate env_800x600 (OnApplyTemplate env_0x0 (BlitzView_ctor, world0))))) \<le> 1"
proof -
  have r: "run [TemplateApplied env_0x0] (BlitzView_ctor, world0) = (bound_view, bound_world)"
    by (simp add: first_application)
  have mp: "m_panel bound_view = Some 7"
    by (simp add: bound_view_def)
  have ph: "panel_handlers bound_world =
       [(7, Loaded, 2), (7, SizeChanged, 3), (7, PointerMoved, 4), (7, PointerPressed, 5),
        (7, PointerReleased, 6), (7, PointerWheelChanged, 7)]"
    by (simp add: bound_world_def)
  have second: "panel_handlers (snd (OnApplyTemplate env_800x600 (bound_view, bound_world))) =
       [(8, Loaded, 8), (8, SizeChanged, 9), (8, PointerMoved, 10), (8, PointerPressed, 11),
        (8, PointerReleased, 12), (8, PointerWheelChanged, 13)]"
    by (simp add: OnApplyTemplate_phases unsubscribe_all_def clear_def remove_handler_def
        InitializeHostIfReady_def subscribe_all_def add_handler_def Let_def env_800x600_def
        bound_view_def bound_world_def)
  have tokens: "m_loadedToken bound_view = 2" "m_sizeChangedToken bound_view = 3"
      "m_pointerMovedToken bound_view = 4" "m_pointerPressedToken bound_view = 5"
      "m_pointerReleasedToken bound_view = 6" "m_pointerWheelChangedToken bound_view = 7"
    by (simp_all add: bound_view_def)
  note c8 = C8_template_reapplication [OF r mp, where env = env_800x600 and ?env1.0 = env_0x0
      and ?env2.0 = env_800x600, unfolded tokens]
  from c8 have log: "\<exists>adds. panel_log (snd (OnApplyTemplate env_800x600 (bound_view, bound_world))) =
         panel_log bound_world @
           [Removed 7 Loaded 2, Removed 7 SizeChanged 3, Removed 7 PointerMoved 4,
            Removed 7 PointerPressed 5, Removed 7 PointerReleased 6,
            Removed 7 PointerWheelChanged 7] @ adds
         \<and> list_all is_Added adds"
    by blast
  from c8 ph have gone: "(7, Loaded, 2) \<notin>
      set (panel_handlers (snd (OnApplyTemplate env_800x600 (bound_view, bound_world))))"
    by simp
  from c8 have once: "length (handlers_for PointerMoved
        (snd (OnApplyTemplate env_800x600 (OnApplyTemplate env_0x0 (BlitzView_ctor, world0))))) \<le> 1"
    by blast
  from r mp ph second log gone once show ?thesis by (intro conjI)
qed

end
